theory Spec2Isabelle
  imports Complex_Main
begin

section \<open>Python errors and numpy values\<close>

text \<open>
  Every exception the modelled functions can raise is a constructor of \<open>error\<close>; a function
  that may raise returns \<open>error + 'a\<close> with \<open>Inl\<close> for the exception.
\<close>

datatype error =
    AssertionError
  | IndexError
  | ValueError
  | TypeError
  | KeyError
  | AxisError
  | ZeroDivisionError
  | AttributeError
  | FileNotFoundError
  | FileExistsError
  | IsADirectoryError
  | PermissionError
  | NotFoundInHdfError

text \<open>
  Array elements are floating-point numbers. The model keeps the two kinds of value the
  repository's code distinguishes, a number and NaN (used as the blank of a mask), with
  exact arithmetic on the numbers and NaN absorbing. Rounding and infinities are not modelled.
\<close>

datatype npfloat = Num rat | NaN

fun fadd :: "npfloat \<Rightarrow> npfloat \<Rightarrow> npfloat" where
  "fadd (Num a) (Num b) = Num (a + b)"
| "fadd _ _ = NaN"

fun fsub :: "npfloat \<Rightarrow> npfloat \<Rightarrow> npfloat" where
  "fsub (Num a) (Num b) = Num (a - b)"
| "fsub _ _ = NaN"

fun fmul :: "npfloat \<Rightarrow> npfloat \<Rightarrow> npfloat" where
  "fmul (Num a) (Num b) = Num (a * b)"
| "fmul _ _ = NaN"

fun fneg :: "npfloat \<Rightarrow> npfloat" where
  "fneg (Num a) = Num (- a)"
| "fneg NaN = NaN"

text \<open>Division of a sum by an element count; \<open>0 / 0\<close> is NaN, as for the mean of an empty slice.\<close>

fun fdivn :: "npfloat \<Rightarrow> nat \<Rightarrow> npfloat" where
  "fdivn (Num a) n = (if n = 0 then NaN else Num (a / of_nat n))"
| "fdivn NaN n = NaN"

fun isnan :: "npfloat \<Rightarrow> bool" where
  "isnan NaN = True"
| "isnan (Num _) = False"

definition fsum :: "npfloat list \<Rightarrow> npfloat" where
  "fsum xs = foldl fadd (Num 0) xs"

definition mean_list :: "npfloat list \<Rightarrow> npfloat" where
  "mean_list xs = fdivn (fsum xs) (length xs)"

section \<open>numpy arrays\<close>

text \<open>
  An \<open>ndarray\<close> is its shape and its elements in row-major (C) order, the logical order numpy
  uses for \<open>reshape\<close>, iteration and boolean indexing whatever the memory layout of a view.
\<close>

record ndarray =
  shape :: "nat list"
  flat :: "npfloat list"

definition wf_array :: "ndarray \<Rightarrow> bool" where
  "wf_array a = (length (flat a) = prod_list (shape a))"

definition ndim :: "ndarray \<Rightarrow> nat" where
  "ndim a = length (shape a)"

text \<open>\<open>a[idxs,]\<close>: integer-array indexing along the first axis.\<close>

definition take_idx :: "nat list \<Rightarrow> ndarray \<Rightarrow> error + ndarray" where
  "take_idx idxs a =
     (case shape a of
        [] \<Rightarrow> Inl IndexError
      | n # rest \<Rightarrow>
          if \<exists>i \<in> set idxs. n \<le> i then Inl IndexError
          else Inr \<lparr>shape = length idxs # rest,
                    flat = concat (map (\<lambda>i. take (prod_list rest) (drop (i * prod_list rest) (flat a))) idxs)\<rparr>)"

text \<open>
  \<open>np.mean(a, axis=k)\<close> for \<open>0 \<le> k\<close>: the element at (outer index \<open>o\<close>, inner index \<open>i\<close>) of the
  result is the mean of the \<open>m\<close> elements at \<open>(o, j, i)\<close>, \<open>j < m\<close>.
\<close>

definition mean_axis :: "nat \<Rightarrow> ndarray \<Rightarrow> error + ndarray" where
  "mean_axis k a =
     (if length (shape a) \<le> k then Inl AxisError
      else
        let outer = prod_list (take k (shape a));
            m = shape a ! k;
            inner = prod_list (drop (Suc k) (shape a))
        in Inr \<lparr>shape = take k (shape a) @ drop (Suc k) (shape a),
                flat = map (\<lambda>p. mean_list (map (\<lambda>j. flat a ! ((p div inner * m + j) * inner + p mod inner)) [0..<m]))
                           [0..<outer * inner]\<rparr>)"

text \<open>Elementwise difference of two arrays of the same shape, and a scalar multiple.\<close>

definition arr_sub :: "ndarray \<Rightarrow> ndarray \<Rightarrow> error + ndarray" where
  "arr_sub a b =
     (if shape a \<noteq> shape b then Inl ValueError
      else Inr \<lparr>shape = shape a, flat = map (\<lambda>(x, y). fsub x y) (zip (flat a) (flat b))\<rparr>)"

definition arr_scale :: "npfloat \<Rightarrow> ndarray \<Rightarrow> ndarray" where
  "arr_scale c a = \<lparr>shape = shape a, flat = map (fmul c) (flat a)\<rparr>"

definition bind_err :: "error + 'a \<Rightarrow> ('a \<Rightarrow> error + 'b) \<Rightarrow> error + 'b" where
  "bind_err r f = (case r of Inl e \<Rightarrow> Inl e | Inr x \<Rightarrow> f x)"

section \<open>Square-wave entropy signal\<close>

text \<open>
  \<open>entropy_signal\<close> of \<open>SquareEntropy.py\<close>:
  \<^verbatim>\<open>assert data.shape[0] == 4\<close>, then
  \<^verbatim>\<open>-1 * (np.mean(data[(1, 3),], axis=0) - np.mean(data[(0, 2),], axis=0))\<close>.
\<close>

definition entropy_signal :: "ndarray \<Rightarrow> error + ndarray" where
  "entropy_signal data =
     (case shape data of
        [] \<Rightarrow> Inl IndexError
      | n # rest \<Rightarrow>
          if n \<noteq> 4 then Inl AssertionError
          else
            bind_err (take_idx [1, 3] data) (\<lambda>hot.
            bind_err (mean_axis 0 hot) (\<lambda>hot_mean.
            bind_err (take_idx [0, 2] data) (\<lambda>cold.
            bind_err (mean_axis 0 cold) (\<lambda>cold_mean.
            bind_err (arr_sub hot_mean cold_mean) (\<lambda>d.
            Inr (arr_scale (Num (- 1)) d)))))))"

text \<open>\<open>elem0 a k i\<close> is the \<open>i\<close>-th element (row-major) of the sub-array \<open>a[k]\<close>.\<close>

definition elem0 :: "ndarray \<Rightarrow> nat \<Rightarrow> nat \<Rightarrow> npfloat" where
  "elem0 a k i = flat a ! (k * prod_list (tl (shape a)) + i)"

text \<open>
  \<open>a.reshape(dims)\<close>: the elements keep their order. One dimension may be \<open>-1\<close> and is then
  inferred; any other negative dimension, or a size that does not fit, raises \<open>ValueError\<close>.
\<close>

definition reshape :: "int list \<Rightarrow> ndarray \<Rightarrow> error + ndarray" where
  "reshape dims a =
     (let negs = filter (\<lambda>d. d < 0) dims;
          known = prod_list (map nat (filter (\<lambda>d. 0 \<le> d) dims));
          size = length (flat a)
      in if negs = [] then
           (if known = size then Inr \<lparr>shape = map nat dims, flat = flat a\<rparr> else Inl ValueError)
         else if negs = [- 1] \<and> known \<noteq> 0 \<and> size mod known = 0 then
           Inr \<lparr>shape = map (\<lambda>d. if d < 0 then size div known else nat d) dims, flat = flat a\<rparr>
         else Inl ValueError)"

text \<open>\<open>np.array(a, ndmin=n)\<close> prepends axes of length 1 until the array has \<open>n\<close> dimensions.\<close>

definition ndmin :: "nat \<Rightarrow> ndarray \<Rightarrow> ndarray" where
  "ndmin n a = \<lparr>shape = replicate (n - length (shape a)) 1 @ shape a, flat = flat a\<rparr>"

text \<open>
  A basic slice \<open>lo:hi\<close> along axis \<open>k\<close>, for bounds already clamped to the axis, and the Python
  slice \<open>start:stop\<close> with its clamping. The caller checks that the axis exists.
\<close>

definition slice_axis :: "nat \<Rightarrow> nat \<Rightarrow> nat \<Rightarrow> ndarray \<Rightarrow> ndarray" where
  "slice_axis k lo hi a =
     (let outer = prod_list (take k (shape a));
          m = shape a ! k;
          m' = hi - lo;
          inner = prod_list (drop (Suc k) (shape a))
      in \<lparr>shape = (shape a)[k := m'],
          flat = map (\<lambda>p. flat a ! ((p div (m' * inner) * m + lo + p div inner mod m') * inner + p mod inner))
                     [0..<outer * m' * inner]\<rparr>)"

definition clamp_index :: "nat \<Rightarrow> int \<Rightarrow> nat" where
  "clamp_index n i = nat (if i < 0 then max 0 (i + int n) else min i (int n))"

definition py_slice_axis :: "nat \<Rightarrow> int \<Rightarrow> int \<Rightarrow> ndarray \<Rightarrow> ndarray" where
  "py_slice_axis k start stop a =
     slice_axis k (clamp_index (shape a ! k) start) (clamp_index (shape a ! k) stop) a"

text \<open>\<open>a[i]\<close> for a non-negative integer \<open>i\<close>: the sub-array at position \<open>i\<close> of the first axis.\<close>

definition index0 :: "ndarray \<Rightarrow> nat \<Rightarrow> error + ndarray" where
  "index0 a i =
     (case shape a of
        [] \<Rightarrow> Inl IndexError
      | n # rest \<Rightarrow>
          if n \<le> i then Inl IndexError
          else Inr \<lparr>shape = rest, flat = take (prod_list rest) (drop (i * prod_list rest) (flat a))\<rparr>)"

section \<open>Arbitrary wave generator masks (\<open>AWG.py\<close>)\<close>

text \<open>
  Python list indexing and slicing. A negative index counts from the end; a slice clamps its
  bounds to the length and is empty when the start is not before the stop.
\<close>

definition py_index :: "'a list \<Rightarrow> int \<Rightarrow> error + 'a" where
  "py_index xs i =
     (if 0 \<le> i \<and> i < int (length xs) then Inr (xs ! nat i)
      else if i < 0 \<and> - int (length xs) \<le> i then Inr (xs ! nat (i + int (length xs)))
      else Inl IndexError)"















section \<open>Fit parameters (\<open>edit_params\<close> of \<open>core_util.py\<close>)\<close>

text \<open>
  An \<open>lm.Parameters\<close> object is an ordered dictionary from names to \<open>Parameter\<close> objects, and
  \<open>edit_params\<close> assigns to attributes of those objects. Objects live in a heap: a
  \<open>Parameters\<close> object is the list of its (name, reference) entries, a \<open>Parameter\<close> object is
  a record of the attributes the function touches and of the rest (\<open>par_other\<close>).
  The class \<open>Parameter\<close> belongs to lmfit, outside the repository: \<open>vary\<close>, \<open>min\<close> and \<open>max\<close> are
  plain attributes, and \<open>value\<close> is a property whose setter keeps the value within the bounds.
  Constraint expressions are part of the rest and are not evaluated.
\<close>

type_synonym ref = nat





text \<open>The argument \<open>params\<close>: one \<open>Parameters\<close> object or a Python list of them.\<close>

datatype params_arg = Single ref | Many "ref list"
























section \<open>Cached data access (\<open>MyLRU\<close> of \<open>core_util.py\<close>, \<open>FittingAttribute\<close>)\<close>

text \<open>
  \<open>MyLRU\<close> keeps an \<open>OrderedDict\<close> from hash keys to results: an association list in insertion
  order, the oldest entry first. The wrapper is applied to \<open>get_data\<close> in the class body, so the
  one cache is shared by all instances, and with \<open>wrapping_method=True\<close> the hash key is computed
  from the arguments after \<open>self\<close>. The hash of the argument tuple is a parameter \<open>hash_key\<close>.
\<close>

type_synonym 'v ordered_dict = "(int \<times> 'v) list"




text \<open>
  The state: the \<open>Data\<close> group of every instance's file, the shared cache, and the number of calls
  of the wrapped function, each of which opens and reads a file. Reading and writing a data set
  (\<open>HDU.get_data\<close>, \<open>HDU.set_data\<close> under \<open>with_hdf_read\<close> and \<open>with_hdf_write\<close>) belong to the module
  \<open>HDF_Util\<close>; here they are the parameters \<open>rd\<close> and \<open>wr\<close>, and either may raise.
\<close>

record ('g, 'v) attr_state =
  hdfs :: "nat \<Rightarrow> 'g"
  cache :: "'v ordered_dict"
  reads :: nat







section \<open>The dat handler (\<open>DatHandler\<close> of \<open>Make_Dat.py\<close>)\<close>

text \<open>
  \<open>DatHandler.open_dats\<close> is a class-level dictionary from ids to open \<open>DatHDF\<close> objects. An object
  is its identity and the path of the file it wraps; a new object takes the next identity. The
  file system is the set of paths that are files and the set of directories, and \<open>log\<close> records
  what was done to it: a directory made, a file removed, opened, fetched or built.
\<close>

record Exp2HDF =
  dir_name :: string
  datHDF_path :: string
  exp_dat_path :: string

record DatHDF =
  obj_id :: nat
  hdf_path :: string

datatype event = MadeDir string | Removed string | Opened string | Synchronized string | Built string

record handler_state =
  open_dats :: "string \<Rightarrow> DatHDF option"
  files :: "string set"
  dirs :: "string set"
  next_id :: nat
  log :: "event list"

text \<open>
  What other modules define is a parameter: the default \<open>Exp2HDF\<close> class,
  \<open>get_dat_id\<close>, \<open>os.path.dirname\<close>, whether the operating system refuses to make a directory or
  to remove a file, whether \<open>HDFContainer.from_path\<close> or \<open>DatHDF\<close> raises on a file,
  whether \<open>synchronize_data\<close> raises or brings the experiment file, and
  whether \<open>DatHDFBuilder.build_dat\<close> raises (it writes the dat file when it does not).
\<close>

record handler_env =
  default_Exp2HDF :: "int \<Rightarrow> string \<Rightarrow> Exp2HDF"
  get_dat_id :: "int \<Rightarrow> string \<Rightarrow> string"
  dirname :: "string \<Rightarrow> string"
  makedirs_fails :: "string \<Rightarrow> error option"
  remove_refused :: "string \<Rightarrow> bool"
  open_fails :: "string \<Rightarrow> error option"
  synchronize_data :: "Exp2HDF \<Rightarrow> error + bool"
  build_fails :: "Exp2HDF \<Rightarrow> string \<Rightarrow> error option"

definition full_id_of :: "handler_env \<Rightarrow> Exp2HDF \<Rightarrow> int \<Rightarrow> string \<Rightarrow> string" where
  "full_id_of env e datnum datname = dir_name e @ '':'' @ get_dat_id env datnum datname"

text \<open>
  \<open>os.makedirs(d, exist_ok=True)\<close>, called for a \<open>d\<close> that is not a directory: the empty path
  (what \<open>os.path.dirname\<close> gives for a path without a directory part) raises
  \<open>FileNotFoundError\<close>, a path that is a file raises \<open>FileExistsError\<close>, and the operating system
  may refuse for reasons of its own. The directories above \<open>d\<close> are not tracked.
\<close>

definition makedirs :: "handler_env \<Rightarrow> string \<Rightarrow> handler_state \<Rightarrow> (error + unit) \<times> handler_state" where
  "makedirs env d s =
     (if d = [] then (Inl FileNotFoundError, s)
      else if d \<in> files s then (Inl FileExistsError, s)
      else (case makedirs_fails env d of
              Some err \<Rightarrow> (Inl err, s)
            | None \<Rightarrow> (Inr (), s\<lparr>dirs := insert d (dirs s), log := log s @ [MadeDir d]\<rparr>)))"

definition ensure_dir :: "handler_env \<Rightarrow> string \<Rightarrow> handler_state \<Rightarrow> (error + unit) \<times> handler_state" where
  "ensure_dir env path s =
     (if dirname env path \<in> dirs s then (Inr (), s) else makedirs env (dirname env path) s)"

text \<open>
  \<open>_delete_hdf\<close>: \<open>os.remove(path)\<close> with \<open>FileNotFoundError\<close>, raised when nothing is at the path,
  caught. The operating system may refuse to remove a file (\<open>PermissionError\<close>), and removing a
  directory raises \<open>IsADirectoryError\<close> (another \<open>OSError\<close> on some platforms); neither is caught.
\<close>

definition delete_hdf :: "handler_env \<Rightarrow> string \<Rightarrow> handler_state \<Rightarrow> (error + unit) \<times> handler_state" where
  "delete_hdf env path s =
     (if path \<in> files s then
        (if remove_refused env path then (Inl PermissionError, s)
         else (Inr (), s\<lparr>files := files s - {path}, log := log s @ [Removed path]\<rparr>))
      else if path \<in> dirs s then (Inl IsADirectoryError, s)
      else (Inr (), s))"

definition open_hdf :: "handler_env \<Rightarrow> string \<Rightarrow> handler_state \<Rightarrow> (error + DatHDF) \<times> handler_state" where
  "open_hdf env path s =
     (case open_fails env path of
        Some err \<Rightarrow> (Inl err, s)
      | None \<Rightarrow>
          (Inr \<lparr>obj_id = next_id s, hdf_path = path\<rparr>,
           s\<lparr>next_id := Suc (next_id s), log := log s @ [Opened path]\<rparr>))"

definition check_exp_data_exists ::
  "handler_env \<Rightarrow> Exp2HDF \<Rightarrow> handler_state \<Rightarrow> (error + bool) \<times> handler_state" where
  "check_exp_data_exists env e s =
     (if exp_dat_path e \<in> files s then (Inr True, s)
      else
        (case synchronize_data env e of
           Inl err \<Rightarrow> (Inl err, s)
         | Inr brought \<Rightarrow>
             let s1 = s\<lparr>files := (if brought then insert (exp_dat_path e) (files s) else files s),
                         log := log s @ [Synchronized (exp_dat_path e)]\<rparr>
             in if exp_dat_path e \<in> files s1 then (Inr True, s1) else (Inl FileNotFoundError, s1)))"

definition build_dat ::
  "handler_env \<Rightarrow> Exp2HDF \<Rightarrow> string \<Rightarrow> handler_state \<Rightarrow> (error + DatHDF) \<times> handler_state" where
  "build_dat env e init_level s =
     (case build_fails env e init_level of
        Some err \<Rightarrow> (Inl err, s)
      | None \<Rightarrow>
          (Inr \<lparr>obj_id = next_id s, hdf_path = datHDF_path e\<rparr>,
           s\<lparr>files := insert (datHDF_path e) (files s), next_id := Suc (next_id s),
             log := log s @ [Built (datHDF_path e)]\<rparr>))"

definition get_dat ::
  "handler_env \<Rightarrow> int \<Rightarrow> string \<Rightarrow> bool \<Rightarrow> string \<Rightarrow> (int \<Rightarrow> string \<Rightarrow> Exp2HDF) option \<Rightarrow>
   handler_state \<Rightarrow> (error + DatHDF) \<times> handler_state" where
  "get_dat env datnum datname overwrite init_level exp2hdf s0 =
     (let e = (case exp2hdf of Some mk \<Rightarrow> mk datnum datname | None \<Rightarrow> default_Exp2HDF env datnum datname);
          full_id = full_id_of env e datnum datname;
          path = datHDF_path e
      in case ensure_dir env path s0 of
           (Inl err, s1) \<Rightarrow> (Inl err, s1)
         | (Inr _, s1) \<Rightarrow>
             (case (if overwrite
                    then (case delete_hdf env path s1 of
                            (Inl err, s) \<Rightarrow> (Inl err, s)
                          | (Inr _, s) \<Rightarrow> (Inr (), s\<lparr>open_dats := (open_dats s)(full_id := None)\<rparr>))
                    else (Inr (), s1)) of
                (Inl err, s2) \<Rightarrow> (Inl err, s2)
              | (Inr _, s2) \<Rightarrow>
                  (case open_dats s2 full_id of
                     Some d \<Rightarrow> (Inr d, s2)
                   | None \<Rightarrow>
                       if path \<in> files s2 then
                         (case open_hdf env path s2 of
                            (Inl err, s3) \<Rightarrow> (Inl err, s3)
                          | (Inr d, s3) \<Rightarrow> (Inr d, s3\<lparr>open_dats := (open_dats s3)(full_id \<mapsto> d)\<rparr>))
                       else
                         (case check_exp_data_exists env e s2 of
                            (Inl err, s3) \<Rightarrow> (Inl err, s3)
                          | (Inr _, s3) \<Rightarrow>
                              (case build_dat env e init_level s3 of
                                 (Inl err, s4) \<Rightarrow> (Inl err, s4)
                               | (Inr d, s4) \<Rightarrow>
                                   (Inr d, s4\<lparr>open_dats := (open_dats s4)(full_id \<mapsto> d)\<rparr>))))))"

text \<open>Every open dat was created earlier: its identity is below the next one.\<close>

definition wf_handler :: "handler_state \<Rightarrow> bool" where
  "wf_handler s = (\<forall>k d. open_dats s k = Some d \<longrightarrow> obj_id d < next_id s)"

text \<open>An example environment and state: one experiment file, nothing open.\<close>

definition example_env :: handler_env where
  "example_env =
     \<lparr>default_Exp2HDF = (\<lambda>n name. \<lparr>dir_name = ''exp'', datHDF_path = ''hdfs/dat'' @ name,
                                      exp_dat_path = ''data/dat'' @ name\<rparr>),
      get_dat_id = (\<lambda>n name. name),
      dirname = (\<lambda>p. takeWhile (\<lambda>c. c \<noteq> CHR ''/'') p),
      makedirs_fails = (\<lambda>d. None),
      remove_refused = (\<lambda>p. False),
      open_fails = (\<lambda>p. None),
      synchronize_data = (\<lambda>e. Inr False),
      build_fails = (\<lambda>e lvl. None)\<rparr>"

definition example_handler :: handler_state where
  "example_handler =
     \<lparr>open_dats = (\<lambda>k. None), files = {''data/datbase''}, dirs = {''data''}, next_id = 0, log = []\<rparr>"

section \<open>Square-wave processing (\<open>SquareEntropy.py\<close>)\<close>

subsection \<open>More of numpy\<close>

text \<open>Multi-indices in row-major order, and \<open>a.transpose(order)\<close>: axis \<open>i\<close> of the result is axis
  \<open>order[i]\<close> of \<open>a\<close>.\<close>

fun unravel :: "nat list \<Rightarrow> nat \<Rightarrow> nat list" where
  "unravel [] p = []"
| "unravel (n # ns) p = (p div prod_list ns) # unravel ns (p mod prod_list ns)"

fun ravel :: "nat list \<Rightarrow> nat list \<Rightarrow> nat" where
  "ravel (n # ns) (i # is) = i * prod_list ns + ravel ns is"
| "ravel _ _ = 0"

definition pos_of :: "nat \<Rightarrow> nat list \<Rightarrow> nat" where
  "pos_of x xs = length (takeWhile (\<lambda>y. y \<noteq> x) xs)"

definition transpose_axes :: "nat list \<Rightarrow> ndarray \<Rightarrow> ndarray" where
  "transpose_axes order a =
     (let new_shape = map (\<lambda>i. shape a ! i) order
      in \<lparr>shape = new_shape,
          flat = map (\<lambda>p. let idx' = unravel new_shape p;
                               idx = map (\<lambda>ax. idx' ! pos_of ax order) [0..<length (shape a)]
                           in flat a ! ravel (shape a) idx)
                     [0..<prod_list new_shape]\<rparr>)"

text \<open>\<open>np.moveaxis(a, source, destination)\<close> for two integers; a negative axis counts from the
  end, an axis out of range raises.\<close>

definition normalize_axis :: "nat \<Rightarrow> int \<Rightarrow> error + nat" where
  "normalize_axis nd ax =
     (if - int nd \<le> ax \<and> ax < int nd then Inr (nat (if ax < 0 then ax + int nd else ax))
      else Inl AxisError)"

definition moveaxis :: "int \<Rightarrow> int \<Rightarrow> ndarray \<Rightarrow> error + ndarray" where
  "moveaxis source destination a =
     bind_err (normalize_axis (ndim a) source) (\<lambda>src.
     bind_err (normalize_axis (ndim a) destination) (\<lambda>dst.
       let rest = filter (\<lambda>n. n \<noteq> src) [0..<ndim a];
           order = take dst rest @ [src] @ drop dst rest
       in Inr (transpose_axes order a)))"

text \<open>\<open>np.array(list_of_arrays)\<close> stacks arrays of one shape along a new first axis;
  \<open>np.squeeze(a, axis=0)\<close> removes a first axis of length 1.\<close>

definition np_stack :: "ndarray list \<Rightarrow> error + ndarray" where
  "np_stack as =
     (case as of
        [] \<Rightarrow> Inr \<lparr>shape = [0], flat = []\<rparr>
      | a # _ \<Rightarrow>
          if \<forall>b \<in> set as. shape b = shape a
          then Inr \<lparr>shape = length as # shape a, flat = concat (map flat as)\<rparr>
          else Inl ValueError)"

definition squeeze0 :: "ndarray \<Rightarrow> error + ndarray" where
  "squeeze0 a =
     (case shape a of
        [] \<Rightarrow> Inl AxisError
      | n # rest \<Rightarrow> if n = 1 then Inr \<lparr>shape = rest, flat = flat a\<rparr> else Inl ValueError)"

text \<open>\<open>a[start:stop]\<close> along the first axis, where either bound may be \<open>None\<close>.\<close>

definition slice0_opt :: "int option \<Rightarrow> int option \<Rightarrow> ndarray \<Rightarrow> error + ndarray" where
  "slice0_opt start stop a =
     (case shape a of
        [] \<Rightarrow> Inl IndexError
      | n # rest \<Rightarrow>
          let lo = (case start of None \<Rightarrow> 0 | Some i \<Rightarrow> clamp_index n i);
              hi = (case stop of None \<Rightarrow> n | Some i \<Rightarrow> clamp_index n i)
          in Inr (slice_axis 0 lo hi a))"

text \<open>\<open>np.atleast_2d\<close>, the product \<open>z * mask\<close> of an array with a one-dimensional mask broadcast
  along the last axis, and \<open>zm[~np.isnan(zm)]\<close>.\<close>

definition atleast_2d :: "ndarray \<Rightarrow> ndarray" where
  "atleast_2d a =
     (case shape a of
        [] \<Rightarrow> \<lparr>shape = [1, 1], flat = flat a\<rparr>
      | [n] \<Rightarrow> \<lparr>shape = [1, n], flat = flat a\<rparr>
      | _ \<Rightarrow> a)"

definition mul_mask :: "ndarray \<Rightarrow> npfloat list \<Rightarrow> error + ndarray" where
  "mul_mask z msk =
     (case shape z of
        [] \<Rightarrow> Inr \<lparr>shape = [length msk], flat = map (fmul (flat z ! 0)) msk\<rparr>
      | _ \<Rightarrow>
          let n = last (shape z); m = length msk
          in if n = m then
               Inr \<lparr>shape = shape z, flat = map (\<lambda>p. fmul (flat z ! p) (msk ! (p mod n))) [0..<length (flat z)]\<rparr>
             else if m = 1 then
               Inr \<lparr>shape = shape z, flat = map (\<lambda>x. fmul x (msk ! 0)) (flat z)\<rparr>
             else if n = 1 then
               Inr \<lparr>shape = butlast (shape z) @ [m], flat = concat (map (\<lambda>x. map (fmul x) msk) (flat z))\<rparr>
             else Inl ValueError)"

definition drop_nan :: "ndarray \<Rightarrow> ndarray" where
  "drop_nan a =
     (let kept = filter (\<lambda>x. \<not> isnan x) (flat a) in \<lparr>shape = [length kept], flat = kept\<rparr>)"

text \<open>\<open>np.linspace(start, stop, num)\<close>.\<close>

definition linspace :: "npfloat \<Rightarrow> npfloat \<Rightarrow> int \<Rightarrow> error + npfloat list" where
  "linspace start stop num =
     (if num < 0 then Inl ValueError
      else if num = 1 then Inr [start]
      else Inr (map (\<lambda>i. fadd start (fmul (Num (of_nat i)) (fdivn (fsub stop start) (nat num - 1))))
                    [0..<nat num]))"

subsection \<open>The processing functions\<close>

record Input =
  x_array :: "npfloat list"
  i_sense :: ndarray
  num_steps :: int
  num_cycles :: int
  setpoint_lengths :: "int list"
  full_wave_masks :: "npfloat list list"
  centers :: "npfloat list option"
  avg_nans :: bool

record ProcessParams =
  setpoint_start :: "int option"
  setpoint_fin :: "int option"
  cycle_start :: "int option"
  cycle_fin :: "int option"

text \<open>The fields of an \<open>Output\<close> that \<open>process_per_row_parts\<close> leaves at \<open>None\<close> are options.\<close>

record Output =
  out_x :: "npfloat list"
  chunked :: "ndarray list"
  setpoint_averaged :: ndarray
  setpoint_averaged_x :: "npfloat list"
  cycled :: ndarray
  averaged :: "ndarray option"
  centers_used :: "npfloat list option"
  out_entropy_signal :: ndarray
  average_entropy_signal :: "ndarray option"
  process_params :: ProcessParams

text \<open>
  \<open>chunk_data\<close>: one chunk per (mask, setpoint length) pair.
\<close>

definition chunk_one :: "ndarray \<Rightarrow> int \<Rightarrow> int \<Rightarrow> npfloat list \<Rightarrow> int \<Rightarrow> error + ndarray" where
  "chunk_one data n_steps n_cycles msk sp_len =
     (let z = atleast_2d data
      in bind_err (mul_mask z msk) (\<lambda>zm.
           reshape [int (shape z ! 0), n_steps, n_cycles, sp_len] (drop_nan zm)))"

fun chunk_loop :: "ndarray \<Rightarrow> int \<Rightarrow> int \<Rightarrow> (npfloat list \<times> int) list \<Rightarrow> error + ndarray list" where
  "chunk_loop data n_steps n_cycles [] = Inr []"
| "chunk_loop data n_steps n_cycles ((msk, sp_len) # rest) =
     bind_err (chunk_one data n_steps n_cycles msk sp_len) (\<lambda>zm.
     bind_err (chunk_loop data n_steps n_cycles rest) (\<lambda>zs. Inr (zm # zs)))"

definition chunk_data :: "ndarray \<Rightarrow> npfloat list list \<Rightarrow> int list \<Rightarrow> int \<Rightarrow> int \<Rightarrow> error + ndarray list" where
  "chunk_data data masks sp_lens n_steps n_cycles =
     chunk_loop data n_steps n_cycles (zip masks sp_lens)"

text \<open>\<open>average_setpoints\<close>: the mean over \<open>[start_index:fin_index]\<close> of the last axis of every
  chunk; the result has the row axis first, unless there is one row only.\<close>

definition average_one :: "int option \<Rightarrow> int option \<Rightarrow> ndarray \<Rightarrow> error + ndarray" where
  "average_one start fin z =
     bind_err (moveaxis (- 1) 0 z) (\<lambda>z1.
     bind_err (slice0_opt start fin z1) (\<lambda>z2. mean_axis 0 z2))"

fun average_loop :: "int option \<Rightarrow> int option \<Rightarrow> ndarray list \<Rightarrow> error + ndarray list" where
  "average_loop start fin [] = Inr []"
| "average_loop start fin (z # zs) =
     bind_err (average_one start fin z) (\<lambda>m.
     bind_err (average_loop start fin zs) (\<lambda>ms. Inr (m # ms)))"

definition average_setpoints :: "ndarray list \<Rightarrow> int option \<Rightarrow> int option \<Rightarrow> error + ndarray" where
  "average_setpoints chunked_data start_index fin_index =
     (if \<exists>arr \<in> set chunked_data. ndim arr \<noteq> 4 then Inl AssertionError
      else
        bind_err (average_loop start_index fin_index chunked_data) (\<lambda>nz.
        bind_err (np_stack nz) (\<lambda>st.
        bind_err (moveaxis 0 1 st) (\<lambda>nz1.
          if shape nz1 ! 0 = 1 then squeeze0 nz1 else Inr nz1))))"

text \<open>\<open>average_cycles\<close>: the mean over \<open>[start_cycle:fin_cycle]\<close> of the last axis.\<close>

definition average_cycles :: "ndarray \<Rightarrow> int option \<Rightarrow> int option \<Rightarrow> error + ndarray" where
  "average_cycles binned_data start_cycle fin_cycle =
     (let data = ndmin 4 binned_data
      in bind_err (moveaxis (- 1) 0 data) (\<lambda>d1.
         bind_err (slice0_opt start_cycle fin_cycle d1) (\<lambda>d2.
         bind_err (mean_axis 0 d2) (\<lambda>averaged.
           if shape averaged ! 0 = 1 then squeeze0 averaged else Inr averaged))))"

definition process_per_row_parts :: "Input \<Rightarrow> ProcessParams \<Rightarrow> error + Output" where
  "process_per_row_parts inp pp =
     bind_err (py_index (x_array inp) 0) (\<lambda>x0.
     bind_err (py_index (x_array inp) (- 1)) (\<lambda>x1.
     bind_err (linspace x0 x1 (num_steps inp)) (\<lambda>x.
     bind_err (chunk_data (i_sense inp) (full_wave_masks inp) (setpoint_lengths inp)
                 (num_steps inp) (num_cycles inp)) (\<lambda>ch.
     bind_err (average_setpoints ch (setpoint_start pp) (setpoint_fin pp)) (\<lambda>sa.
     bind_err (linspace x0 x1 (num_steps inp * num_cycles inp)) (\<lambda>sax.
     bind_err (average_cycles sa (cycle_start pp) (cycle_fin pp)) (\<lambda>cy.
     bind_err (moveaxis 1 0 cy) (\<lambda>moved.
     bind_err (entropy_signal moved) (\<lambda>es.
       Inr \<lparr>out_x = x, chunked = ch, setpoint_averaged = sa, setpoint_averaged_x = sax,
            cycled = cy, averaged = None, centers_used = None, out_entropy_signal = es,
            average_entropy_signal = None, process_params = pp\<rparr>)))))))))"

text \<open>
  \<open>center_data\<close> of \<open>core_util.py\<close> interpolates every row, shifted by its center, onto a common
  axis. \<open>scipy.interpolate.interp1d\<close> is the parameter \<open>interp\<close>: from the sample positions, the row
  and the new positions to the interpolated row.
\<close>

definition rows_of :: "ndarray \<Rightarrow> error + ndarray list" where
  "rows_of a =
     (case shape a of
        [] \<Rightarrow> Inl TypeError
      | n # rest \<Rightarrow>
          Inr (map (\<lambda>i. \<lparr>shape = rest, flat = take (prod_list rest) (drop (i * prod_list rest) (flat a))\<rparr>)
                   [0..<n]))"

fun interp_rows ::
  "(npfloat list \<Rightarrow> ndarray \<Rightarrow> npfloat list \<Rightarrow> error + ndarray) \<Rightarrow> npfloat list \<Rightarrow> npfloat list \<Rightarrow>
   (ndarray \<times> npfloat) list \<Rightarrow> error + ndarray list" where
  "interp_rows interp x nx [] = Inr []"
| "interp_rows interp x nx ((row, center) # rest) =
     bind_err (interp (map (\<lambda>v. fsub v center) x) row nx) (\<lambda>r.
     bind_err (interp_rows interp x nx rest) (\<lambda>rs. Inr (r # rs)))"

definition center_data ::
  "(npfloat list \<Rightarrow> ndarray \<Rightarrow> npfloat list \<Rightarrow> error + ndarray) \<Rightarrow> npfloat list \<Rightarrow> ndarray \<Rightarrow>
   npfloat list \<Rightarrow> error + ndarray \<times> npfloat list" where
  "center_data interp x data cs =
     (let d2 = atleast_2d data;
          avg_center = mean_list cs
      in bind_err (py_index x 0) (\<lambda>x0.
         bind_err (py_index x (- 1)) (\<lambda>x1.
         bind_err (linspace (fsub x0 avg_center) (fsub x1 avg_center) (int (last (shape d2)))) (\<lambda>nx.
         bind_err (rows_of d2) (\<lambda>rows.
         bind_err (interp_rows interp x nx (zip rows cs)) (\<lambda>ndata.
         bind_err (np_stack ndata) (\<lambda>nd. Inr (nd, nx))))))))"

text \<open>\<open>np.nanmean(a, axis=k)\<close>: the mean of the elements that are not NaN.\<close>

definition nanmean_axis :: "nat \<Rightarrow> ndarray \<Rightarrow> error + ndarray" where
  "nanmean_axis k a =
     (if length (shape a) \<le> k then Inl AxisError
      else
        let outer = prod_list (take k (shape a));
            m = shape a ! k;
            inner = prod_list (drop (Suc k) (shape a))
        in Inr \<lparr>shape = take k (shape a) @ drop (Suc k) (shape a),
                flat = map (\<lambda>p. mean_list (filter (\<lambda>v. \<not> isnan v)
                                     (map (\<lambda>j. flat a ! ((p div inner * m + j) * inner + p mod inner)) [0..<m])))
                           [0..<outer * inner]\<rparr>)"

text \<open>
  \<open>average_2D\<close>: data of three dimensions is centered part by part and averaged over its rows;
  other data is returned as it is. Without centers the function fits the unheated parts
  (\<open>transition_fits\<close>, the parameter \<open>fit_centers\<close>, \<open>None\<close> when a fit fails); its return after a
  failed fit has two values where the caller unpacks three.
\<close>

fun center_parts ::
  "(npfloat list \<Rightarrow> ndarray \<Rightarrow> npfloat list \<Rightarrow> error + ndarray) \<Rightarrow> npfloat list \<Rightarrow> npfloat list \<Rightarrow>
   ndarray list \<Rightarrow> error + (ndarray \<times> npfloat list) list" where
  "center_parts interp x cs [] = Inr []"
| "center_parts interp x cs (z # zs) =
     bind_err (center_data interp x z cs) (\<lambda>r.
     bind_err (center_parts interp x cs zs) (\<lambda>rs. Inr (r # rs)))"

definition average_2D ::
  "(npfloat list \<Rightarrow> ndarray \<Rightarrow> npfloat list \<Rightarrow> error + ndarray) \<Rightarrow>
   (npfloat list \<Rightarrow> ndarray \<Rightarrow> npfloat list option) \<Rightarrow>
   npfloat list \<Rightarrow> ndarray \<Rightarrow> npfloat list option \<Rightarrow> bool \<Rightarrow>
   error + npfloat list \<times> ndarray \<times> npfloat list option" where
  "average_2D interp fit_centers x data cs_opt nans =
     (if ndim data = 3 then
        bind_err (take_idx [0, 2] (transpose_axes [1, 0, 2] data)) (\<lambda>z0s.
        bind_err (mean_axis 0 z0s) (\<lambda>z0_avg_per_row.
        bind_err (case cs_opt of
                    Some cs \<Rightarrow> Inr cs
                  | None \<Rightarrow> (case fit_centers x z0_avg_per_row of None \<Rightarrow> Inl ValueError | Some cs \<Rightarrow> Inr cs)) (\<lambda>cs.
        bind_err (moveaxis 1 0 data) (\<lambda>parts.
        bind_err (rows_of parts) (\<lambda>zs.
        bind_err (center_parts interp x cs zs) (\<lambda>centered.
          if centered \<noteq> [] \<and> (\<exists>v \<in> set (snd (hd centered)). isnan v) then Inl AssertionError
          else
            bind_err (np_stack (map fst centered)) (\<lambda>ndata.
            bind_err (if nans then nanmean_axis 1 ndata else mean_axis 1 ndata) (\<lambda>avg.
            bind_err (py_index (map snd centered) 0) (\<lambda>nx. Inr (nx, avg, Some cs))))))))))
      else Inr (x, data, cs_opt))"

definition process_avg_parts ::
  "(npfloat list \<Rightarrow> ndarray \<Rightarrow> npfloat list \<Rightarrow> error + ndarray) \<Rightarrow>
   (npfloat list \<Rightarrow> ndarray \<Rightarrow> npfloat list option) \<Rightarrow>
   Output \<Rightarrow> Input \<Rightarrow> npfloat list option \<Rightarrow> error + Output" where
  "process_avg_parts interp fit_centers partial_output inp cs =
     bind_err (average_2D interp fit_centers (out_x partial_output) (cycled partial_output) cs (avg_nans inp))
       (\<lambda>(nx, avg, used).
     bind_err (entropy_signal avg) (\<lambda>es.
       Inr (partial_output\<lparr>out_x := nx, averaged := Some avg, centers_used := used,
                             average_entropy_signal := Some es\<rparr>)))"

text \<open>An example: four setpoints of one sample each, two steps of one cycle, and the full-wave
  masks of that wave; the same eight samples as one row and as two rows.\<close>

definition example_masks :: "npfloat list list" where
  "example_masks =
     [[Num 1, NaN, NaN, NaN, Num 1, NaN, NaN, NaN],
      [NaN, Num 1, NaN, NaN, NaN, Num 1, NaN, NaN],
      [NaN, NaN, Num 1, NaN, NaN, NaN, Num 1, NaN],
      [NaN, NaN, NaN, Num 1, NaN, NaN, NaN, Num 1]]"

definition example_input_1d :: Input where
  "example_input_1d =
     \<lparr>x_array = [Num 0, Num 1, Num 2, Num 3, Num 4, Num 5, Num 6, Num 7],
      i_sense = \<lparr>shape = [8], flat = [Num 1, Num 2, Num 3, Num 4, Num 5, Num 6, Num 7, Num 8]\<rparr>,
      num_steps = 2, num_cycles = 1, setpoint_lengths = [1, 1, 1, 1],
      full_wave_masks = example_masks, centers = None, avg_nans = False\<rparr>"

definition example_input_2d :: Input where
  "example_input_2d =
     \<lparr>x_array = [Num 0, Num 1, Num 2, Num 3, Num 4, Num 5, Num 6, Num 7],
      i_sense = \<lparr>shape = [2, 8], flat = [Num 1, Num 2, Num 3, Num 4, Num 5, Num 6, Num 7, Num 8,
                                          Num 1, Num 3, Num 5, Num 7, Num 9, Num 11, Num 13, Num 15]\<rparr>,
      num_steps = 2, num_cycles = 1, setpoint_lengths = [1, 1, 1, 1],
      full_wave_masks = example_masks, centers = None, avg_nans = False\<rparr>"

definition example_pp :: ProcessParams where
  "example_pp = \<lparr>setpoint_start = None, setpoint_fin = None, cycle_start = None, cycle_fin = None\<rparr>"

subsection \<open>Saved outputs (\<open>SquareEntropy.get_Outputs\<close>)\<close>

text \<open>
  The state of a \<open>SquareEntropy\<close> attribute: the \<open>Outputs\<close> group of its file, as the list of the
  saved names with what loading each gives back, and the dictionary \<open>_Outputs\<close> of outputs
  already loaded or saved. What the method takes from other modules is a
  parameter: the default \<open>Input\<close>, the centers from the row fits, the average fit, any of
  which may raise, and \<open>HDU.allowed\<close>.
\<close>

record se_state =
  hdf_outputs :: "(string \<times> Output) list"
  memo_Outputs :: "string \<Rightarrow> Output option"

record se_env =
  default_Input :: "error + Input"
  row_fit_centers :: "string \<Rightarrow> ProcessParams \<Rightarrow> Output \<Rightarrow> bool \<Rightarrow> error + npfloat list"
  avg_fit_fails :: "string \<Rightarrow> ProcessParams \<Rightarrow> Output \<Rightarrow> bool \<Rightarrow> error option"
  interp1d :: "npfloat list \<Rightarrow> ndarray \<Rightarrow> npfloat list \<Rightarrow> error + ndarray"
  transition_fit_centers :: "npfloat list \<Rightarrow> ndarray \<Rightarrow> npfloat list option"
  allowed :: "Output \<Rightarrow> bool"

definition Output_names :: "se_state \<Rightarrow> string list" where
  "Output_names s = map fst (hdf_outputs s)"

text \<open>
  A Python call with a keyword argument that is not a parameter of the function raises
  \<open>TypeError\<close> before the body runs. \<open>DatAttribute.set_group_attr(self, name, value, group_name)\<close>
  and \<open>DatAttribute.get_group_attr(self, name, default, check_exists, group_name, dataclass)\<close>
  take their arguments by position or by these names; \<open>SquareEntropy\<close> does not override them.
  \<open>set_group_attr\<close> stores a value that \<open>HDU.allowed\<close> accepts and raises \<open>TypeError\<close> otherwise;
  \<open>get_group_attr\<close> with \<open>check_exists=True\<close> loads a stored value and raises when there is none.
\<close>

definition accepts_keywords :: "string list \<Rightarrow> string list \<Rightarrow> bool" where
  "accepts_keywords parameters keywords = list_all (\<lambda>k. k \<in> set parameters) keywords"

definition set_group_attr_parameters :: "string list" where
  "set_group_attr_parameters = [''name'', ''value'', ''group_name'']"

definition get_group_attr_parameters :: "string list" where
  "get_group_attr_parameters = [''name'', ''default'', ''check_exists'', ''group_name'', ''dataclass'']"

definition set_group_attr ::
  "se_env \<Rightarrow> string list \<Rightarrow> string \<Rightarrow> Output \<Rightarrow> se_state \<Rightarrow> (error + unit) \<times> se_state" where
  "set_group_attr env keywords name val s =
     (if \<not> accepts_keywords set_group_attr_parameters keywords then (Inl TypeError, s)
      else if \<not> allowed env val then (Inl TypeError, s)
      else (Inr (), s\<lparr>hdf_outputs := (name, val) # filter (\<lambda>e. fst e \<noteq> name) (hdf_outputs s)\<rparr>))"

definition get_group_attr :: "string list \<Rightarrow> string \<Rightarrow> se_state \<Rightarrow> error + Output" where
  "get_group_attr keywords name s =
     (if \<not> accepts_keywords get_group_attr_parameters keywords then Inl TypeError
      else (case map_of (hdf_outputs s) name of
              None \<Rightarrow> Inl NotFoundInHdfError
            | Some out \<Rightarrow> Inr out))"

text \<open>
  \<open>_get_saved_Outputs\<close> calls
  \<^verbatim>\<open>self.get_group_attr(name, check_exists=True, group_name=gn, DataClass=Output)\<close> for a name
  that is not in \<open>_Outputs\<close>, and \<open>_save_Outputs\<close> sets \<open>_Outputs[name]\<close> and then calls
  \<^verbatim>\<open>self.set_group_attr(name, out, group_name=gn, DataClass=Output)\<close>.
\<close>

definition get_saved_Outputs :: "string \<Rightarrow> se_state \<Rightarrow> (error + Output) \<times> se_state" where
  "get_saved_Outputs name s =
     (case memo_Outputs s name of
        Some out \<Rightarrow> (Inr out, s)
      | None \<Rightarrow>
          (case get_group_attr [''check_exists'', ''group_name'', ''DataClass''] name s of
             Inl e \<Rightarrow> (Inl e, s)
           | Inr out \<Rightarrow> (Inr out, s\<lparr>memo_Outputs := (memo_Outputs s)(name \<mapsto> out)\<rparr>)))"

definition save_Outputs :: "se_env \<Rightarrow> string \<Rightarrow> Output \<Rightarrow> se_state \<Rightarrow> (error + unit) \<times> se_state" where
  "save_Outputs env name out s =
     set_group_attr env [''group_name'', ''DataClass''] name out
       (s\<lparr>memo_Outputs := (memo_Outputs s)(name \<mapsto> out)\<rparr>)"

definition default_ProcessParams :: ProcessParams where
  "default_ProcessParams =
     \<lparr>setpoint_start = None, setpoint_fin = None, cycle_start = None, cycle_fin = None\<rparr>"

definition compute_Outputs ::
  "se_env \<Rightarrow> string \<Rightarrow> Input option \<Rightarrow> ProcessParams option \<Rightarrow> bool \<Rightarrow> se_state \<Rightarrow>
   (error + Output) \<times> se_state" where
  "compute_Outputs env name inputs params overwrite s =
     (case (case inputs of None \<Rightarrow> default_Input env | Some i \<Rightarrow> Inr i) of
        Inl e \<Rightarrow> (Inl e, s)
      | Inr inp \<Rightarrow>
          let pp = (case params of None \<Rightarrow> default_ProcessParams | Some p \<Rightarrow> p);
              result =
                bind_err (process_per_row_parts inp pp) (\<lambda>per_row_out.
                bind_err (case centers inp of
                            None \<Rightarrow> row_fit_centers env name pp per_row_out overwrite
                          | Some cs \<Rightarrow> Inr cs) (\<lambda>cs.
                bind_err (process_avg_parts (interp1d env) (transition_fit_centers env)
                            per_row_out inp (Some cs)) (\<lambda>out.
                  if centers inp = None then
                    (case avg_fit_fails env name pp out overwrite of Some e \<Rightarrow> Inl e | None \<Rightarrow> Inr out)
                  else Inr out)))
          in case result of
               Inl e \<Rightarrow> (Inl e, s)
             | Inr out \<Rightarrow>
                 (case save_Outputs env name out s of
                    (Inl e, s') \<Rightarrow> (Inl e, s')
                  | (Inr _, s') \<Rightarrow> (Inr out, s')))"

definition get_Outputs ::
  "se_env \<Rightarrow> string option \<Rightarrow> Input option \<Rightarrow> ProcessParams option \<Rightarrow> bool \<Rightarrow> bool \<Rightarrow> se_state \<Rightarrow>
   (error + Output) \<times> se_state" where
  "get_Outputs env name_opt inputs params overwrite existing_only s =
     (let name = (case name_opt of None \<Rightarrow> ''default'' | Some n \<Rightarrow> n)
      in if \<not> overwrite \<and> name \<in> set (Output_names s) then get_saved_Outputs name s
         else if existing_only then (Inl NotFoundInHdfError, s)
         else compute_Outputs env name inputs params overwrite s)"




text \<open>\<open>at4 a w x y z\<close> is the element \<open>a[w, x, y, z]\<close> of a four-dimensional array, and
  \<open>block_start lens k\<close> the first sample of setpoint \<open>k\<close> within a cycle.\<close>

definition at4 :: "ndarray \<Rightarrow> nat \<Rightarrow> nat \<Rightarrow> nat \<Rightarrow> nat \<Rightarrow> npfloat" where
  "at4 a w x y z = flat a ! (((w * (shape a ! 1) + x) * (shape a ! 2) + y) * (shape a ! 3) + z)"

definition block_start :: "int list \<Rightarrow> nat \<Rightarrow> nat" where
  "block_start lens k = nat (sum_list (take k lens))"

section \<open>Fit results in the file (\<open>FitInfo\<close> of \<open>DatAttribute.py\<close>)\<close>

text \<open>
  The parameters of a fit are an ordered dictionary of \<open>Parameter\<close> objects, of which the class
  reads the name, the value and the initial value. \<open>Values\<close> keeps the attributes set on it and, in
  \<open>keys\<close>, the names it recorded; a name that starts with an underscore is not recorded, and
  setting the name \<open>keys\<close> replaces the list itself, after which recording fails.
\<close>

record fit_par =
  fp_name :: string
  fp_value :: "npfloat option"
  fp_init_value :: "npfloat option"

type_synonym Parameters = "(string \<times> fit_par) list"

record Values =
  v_keys :: "string list option"
  v_attrs :: "string \<Rightarrow> npfloat option option"

definition empty_Values :: Values where
  "empty_Values = \<lparr>v_keys = Some [], v_attrs = (\<lambda>k. None)\<rparr>"

definition Values_setattr :: "string \<Rightarrow> npfloat option \<Rightarrow> Values \<Rightarrow> error + Values" where
  "Values_setattr key v vs =
     (if key = ''keys'' then Inr (vs\<lparr>v_keys := None\<rparr>)
      else if key \<noteq> [] \<and> hd key = CHR ''_'' then Inr (vs\<lparr>v_attrs := (v_attrs vs)(key \<mapsto> v)\<rparr>)
      else (case v_keys vs of
              None \<Rightarrow> Inl AttributeError
            | Some ks \<Rightarrow> Inr (vs\<lparr>v_keys := Some (ks @ [key]), v_attrs := (v_attrs vs)(key \<mapsto> v)\<rparr>)))"

text \<open>The loop of \<open>init_from_hdf\<close> over the parameters, filling \<open>best_values\<close> and \<open>init_values\<close>.\<close>

fun values_loop :: "Parameters \<Rightarrow> Values \<times> Values \<Rightarrow> error + Values \<times> Values" where
  "values_loop [] (bv, iv) = Inr (bv, iv)"
| "values_loop ((key, par) # rest) (bv, iv) =
     bind_err (Values_setattr (fp_name par) (fp_value par) bv) (\<lambda>bv1.
     bind_err (Values_setattr (fp_name par) (fp_init_value par) iv) (\<lambda>iv1.
       values_loop rest (bv1, iv1)))"

record FitInfo =
  fi_params :: "Parameters option"
  fi_func_name :: "string option"
  fi_func_code :: "string option"
  fi_fit_report :: "string option"
  fi_model :: "string option"
  fi_best_values :: "Values option"
  fi_init_values :: "Values option"
  fi_fit_result :: "string option"

text \<open>
  A group of the file: its text attributes, the parameters stored in it, and its sub-groups by
  name. Assigning \<open>None\<close> to an attribute raises \<open>TypeError\<close> (h5py has no type for it).
\<close>

record hdf_group =
  attrs :: "string \<Rightarrow> string option"
  stored_params :: "Parameters option"

definition empty_group :: hdf_group where
  "empty_group = \<lparr>attrs = (\<lambda>k. None), stored_params = None\<rparr>"

definition attrs_set :: "string \<Rightarrow> string option \<Rightarrow> hdf_group \<Rightarrow> error + hdf_group" where
  "attrs_set k v g =
     (case v of None \<Rightarrow> Inl TypeError | Some s \<Rightarrow> Inr (g\<lparr>attrs := (attrs g)(k \<mapsto> s)\<rparr>))"

text \<open>
  Modelled from the spec: \<open>params_to_HDF\<close> and \<open>params_from_HDF\<close> of the module \<open>HDF_Util\<close>, whose
  source is missing. The spec calls them the serialization of the parameters to and from the
  file format: the first stores the parameters in the group (and sets the description that
  \<open>save_to_hdf\<close> overwrites), the second gives back what is stored and raises when nothing is.
\<close>

definition params_to_HDF :: "Parameters \<Rightarrow> hdf_group \<Rightarrow> hdf_group" where
  "params_to_HDF ps g =
     g\<lparr>stored_params := Some ps, attrs := (attrs g)(''description'' \<mapsto> ''Single Parameters of fit'')\<rparr>"

definition params_from_HDF :: "hdf_group \<Rightarrow> error + Parameters" where
  "params_from_HDF g = (case stored_params g of None \<Rightarrow> Inl NotFoundInHdfError | Some ps \<Rightarrow> Inr ps)"

text \<open>
  \<open>FitInfo.save_to_hdf\<close>. The group is made first; without parameters nothing else is written. The
  result is the parent group as it is when the method returns or raises.
\<close>

definition save_to_hdf ::
  "FitInfo \<Rightarrow> (string \<Rightarrow> hdf_group option) \<Rightarrow> string option \<Rightarrow>
   (error + unit) \<times> (string \<Rightarrow> hdf_group option)" where
  "save_to_hdf self parent name_opt =
     (let name = (case name_opt of None \<Rightarrow> ''FitInfo'' | Some n \<Rightarrow> n);
          g0 = (case parent name of None \<Rightarrow> empty_group | Some g \<Rightarrow> g)
      in case fi_params self of
           None \<Rightarrow> (Inr (), parent(name \<mapsto> g0))
         | Some ps \<Rightarrow>
             let g1 = params_to_HDF ps g0;
                 g2 = g1\<lparr>attrs := (attrs g1)(''description'' \<mapsto> ''FitInfo'')\<rparr>
             in case attrs_set ''func_name'' (fi_func_name self) g2 of
                  Inl e \<Rightarrow> (Inl e, parent(name \<mapsto> g2))
                | Inr g3 \<Rightarrow>
                    (case attrs_set ''func_code'' (fi_func_code self) g3 of
                       Inl e \<Rightarrow> (Inl e, parent(name \<mapsto> g3))
                     | Inr g4 \<Rightarrow>
                         (case attrs_set ''fit_report'' (fi_fit_report self) g4 of
                            Inl e \<Rightarrow> (Inl e, parent(name \<mapsto> g4))
                          | Inr g5 \<Rightarrow> (Inr (), parent(name \<mapsto> g5)))))"

text \<open>
  \<open>FitInfo.from_hdf\<close> with \<open>init_from_hdf\<close>. \<open>HDU.get_func\<close>, which makes the fit function from its
  name and source text, is the parameter \<open>get_func\<close>.
\<close>

definition init_from_hdf ::
  "(string option \<Rightarrow> string option \<Rightarrow> error + string) \<Rightarrow> hdf_group \<Rightarrow> error + FitInfo" where
  "init_from_hdf get_func grp =
     bind_err (params_from_HDF grp) (\<lambda>ps.
     bind_err (get_func (attrs grp ''func_name'') (attrs grp ''func_code'')) (\<lambda>f.
     bind_err (values_loop ps (empty_Values, empty_Values)) (\<lambda>(bv, iv).
       Inr \<lparr>fi_params = Some ps,
            fi_func_name = attrs grp ''func_name'',
            fi_func_code = attrs grp ''func_code'',
            fi_fit_report = attrs grp ''fit_report'',
            fi_model = Some f,
            fi_best_values = Some bv,
            fi_init_values = Some iv,
            fi_fit_result = None\<rparr>)))"

definition from_hdf ::
  "(string option \<Rightarrow> string option \<Rightarrow> error + string) \<Rightarrow> (string \<Rightarrow> hdf_group option) \<Rightarrow>
   string option \<Rightarrow> error + FitInfo" where
  "from_hdf get_func parent name_opt =
     (let name = (case name_opt of None \<Rightarrow> ''FitInfo'' | Some n \<Rightarrow> n)
      in case parent name of
           None \<Rightarrow> Inl AttributeError
         | Some fg \<Rightarrow> init_from_hdf get_func fg)"

text \<open>
  An example: a fit of one parameter \<open>mid\<close> whose value was edited to 5 after the fit gave 1, as
  \<open>FitInfo.edit_params\<close> does (it replaces \<open>params\<close> and leaves \<open>best_values\<close>).
\<close>

definition example_fit :: FitInfo where
  "example_fit =
     \<lparr>fi_params = Some [(''mid'', \<lparr>fp_name = ''mid'', fp_value = Some (Num 5), fp_init_value = Some (Num 0)\<rparr>)],
      fi_func_name = Some ''i_sense'',
      fi_func_code = Some ''def i_sense(x, mid): ...'',
      fi_fit_report = Some ''report'',
      fi_model = Some ''i_sense'',
      fi_best_values = Some \<lparr>v_keys = Some [''mid''], v_attrs = (\<lambda>k. if k = ''mid'' then Some (Some (Num 1)) else None)\<rparr>,
      fi_init_values = Some \<lparr>v_keys = Some [''mid''], v_attrs = (\<lambda>k. if k = ''mid'' then Some (Some (Num 0)) else None)\<rparr>,
      fi_fit_result = None\<rparr>"

definition example_get_func :: "string option \<Rightarrow> string option \<Rightarrow> error + string" where
  "example_get_func name code = (case name of None \<Rightarrow> Inl TypeError | Some n \<Rightarrow> Inr n)"

section \<open>Binning (\<open>bin_data_new\<close> of \<open>core_util.py\<close>)\<close>

text \<open>
  \<open>np.floor(s / b).astype(int)\<close> is floor division and \<open>np.ceil(c / 2)\<close> is \<open>-((-c) div 2)\<close>; a bin
  size of zero makes Python's division raise. The three reshapes and means bin the last axis by
  \<open>bin_x\<close>, then the middle one by \<open>bin_y\<close>, then the first by \<open>bin_z\<close>.
\<close>

definition ceil_half :: "int \<Rightarrow> int" where
  "ceil_half c = - ((- c) div 2)"

definition bin_data_new :: "ndarray \<Rightarrow> int \<Rightarrow> int \<Rightarrow> int \<Rightarrow> error + ndarray" where
  "bin_data_new data0 bin_x bin_y bin_z =
     (let nd = ndim data0;
          data = ndmin 3 data0;
          os = shape data
      in if bin_z = 0 \<or> bin_y = 0 \<or> bin_x = 0 then Inl ZeroDivisionError
         else
           let num_z = int (os ! 0) div bin_z;
               num_y = int (os ! 1) div bin_y;
               num_x = int (os ! 2) div bin_x;
               chop_z = int (os ! 0) - num_z * bin_z;
               chop_y = int (os ! 1) - num_y * bin_y;
               chop_x = int (os ! 2) - num_x * bin_x;
               data1 = py_slice_axis 2 (chop_x div 2) (int (os ! 2) - ceil_half chop_x)
                         (py_slice_axis 1 (chop_y div 2) (int (os ! 1) - ceil_half chop_y)
                           (py_slice_axis 0 (chop_z div 2) (int (os ! 0) - ceil_half chop_z) data));
               rs = shape data1
           in bind_err (reshape [int (rs ! 0), int (rs ! 1), num_x, bin_x] data1) (\<lambda>d1.
              bind_err (mean_axis 3 d1) (\<lambda>d2.
              bind_err (reshape [int (rs ! 0), num_y, bin_y, num_x] d2) (\<lambda>d3.
              bind_err (mean_axis 2 d3) (\<lambda>d4.
              bind_err (reshape [num_z, bin_z, num_y, num_x] d4) (\<lambda>d5.
              bind_err (mean_axis 1 d5) (\<lambda>d6.
                if nd = 3 then Inr d6
                else if nd = 2 then index0 d6 0
                else if nd = 1 then bind_err (index0 d6 0) (\<lambda>r. index0 r 0)
                else Inr d6)))))))"

text \<open>
  The words of the claim: \<open>at3 a z y x\<close> is the element \<open>a[z, y, x]\<close> of a three-dimensional array,
  \<open>lead n w\<close> the number of leading elements discarded along an axis of length \<open>n\<close> binned by \<open>w\<close>,
  and \<open>bin_mean\<close> the mean over one bin of \<open>wz * wy * wx\<close> elements, consecutive along each axis,
  taken along x, then y, then z.
\<close>

definition at3 :: "ndarray \<Rightarrow> nat \<Rightarrow> nat \<Rightarrow> nat \<Rightarrow> npfloat" where
  "at3 a z y x = flat a ! ((z * (shape a ! 1) + y) * (shape a ! 2) + x)"

definition lead :: "nat \<Rightarrow> nat \<Rightarrow> nat" where
  "lead n w = (n mod w) div 2"

definition bin_mean :: "ndarray \<Rightarrow> nat \<Rightarrow> nat \<Rightarrow> nat \<Rightarrow> nat \<Rightarrow> nat \<Rightarrow> nat \<Rightarrow> npfloat" where
  "bin_mean a wz wy wx k j i =
     mean_list (map (\<lambda>c.
       mean_list (map (\<lambda>b.
         mean_list (map (\<lambda>d. at3 a (lead (shape a ! 0) wz + k * wz + c)
                                     (lead (shape a ! 1) wy + j * wy + b)
                                     (lead (shape a ! 2) wx + i * wx + d)) [0..<wx])) [0..<wy])) [0..<wz])"

definition example_trace :: ndarray where
  "example_trace = \<lparr>shape = [8], flat = [Num 1, Num 2, Num 3, Num 4, Num 5, Num 6, Num 7, Num 8]\<rparr>"

section \<open>Properties of the entropy signal\<close>

lemma fsum2: "fsum [a, b] = fadd a b"
  by (cases a; cases b) (simp_all add: fsum_def)

lemma scale_neg: "fmul (Num (- 1)) x = fneg x"
  by (cases x) simp_all

lemma upt_0_2: "[0..<2] = [0, Suc 0]"
  by (simp add: numeral_2_eq_2)

lemma take_idx_pair:
  assumes "wf_array a" and "shape a = n # rest" and "i < n" and "j < n"
  shows "\<exists>b. take_idx [i, j] a = Inr b \<and> shape b = 2 # rest \<and>
             length (flat b) = 2 * prod_list rest \<and>
             (\<forall>p < prod_list rest. flat b ! p = flat a ! (i * prod_list rest + p) \<and>
                                    flat b ! (prod_list rest + p) = flat a ! (j * prod_list rest + p))"
proof -
  let ?s = "prod_list rest"
  have len: "length (flat a) = n * ?s" using assms(1,2) by (simp add: wf_array_def)
  have bi: "i * ?s + ?s \<le> n * ?s" using assms(3)
    by (metis Suc_leI mult_Suc mult_le_mono1 add.commute)
  have bj: "j * ?s + ?s \<le> n * ?s" using assms(4)
    by (metis Suc_leI mult_Suc mult_le_mono1 add.commute)
  have li: "length (take ?s (drop (i * ?s) (flat a))) = ?s" using len bi by simp
  have lj: "length (take ?s (drop (j * ?s) (flat a))) = ?s" using len bj by simp
  show ?thesis
    using assms(2,3,4) li lj
    by (simp add: take_idx_def nth_append)
qed

lemma mean_axis0_pair:
  assumes "shape b = 2 # rest" and "p < prod_list rest"
  shows "\<exists>r. mean_axis 0 b = Inr r \<and> shape r = rest \<and> length (flat r) = prod_list rest \<and>
             flat r ! p = fdivn (fadd (flat b ! p) (flat b ! (prod_list rest + p))) 2"
  using assms by (simp add: mean_axis_def Let_def mean_list_def upt_0_2 fsum2)

lemma entropy_signal_value:
  assumes "wf_array data" and "shape data = 4 # rest"
  shows "\<exists>r. entropy_signal data = Inr r \<and> shape r = rest \<and> wf_array r \<and>
           (\<forall>i < prod_list rest.
              flat r ! i = fneg (fsub (fdivn (fadd (elem0 data 1 i) (elem0 data 3 i)) 2)
                                      (fdivn (fadd (elem0 data 0 i) (elem0 data 2 i)) 2)))"
proof -
  let ?s = "prod_list rest"
  obtain hot where hot: "take_idx [1, 3] data = Inr hot" "shape hot = 2 # rest"
      "\<forall>p < ?s. flat hot ! p = flat data ! (1 * ?s + p) \<and> flat hot ! (?s + p) = flat data ! (3 * ?s + p)"
    using take_idx_pair[OF assms, of 1 3] by auto
  obtain cold where cold: "take_idx [0, 2] data = Inr cold" "shape cold = 2 # rest"
      "\<forall>p < ?s. flat cold ! p = flat data ! (0 * ?s + p) \<and> flat cold ! (?s + p) = flat data ! (2 * ?s + p)"
    using take_idx_pair[OF assms, of 0 2] by auto
  define hm where "hm = \<lparr>shape = rest, flat = map (\<lambda>p. fdivn (fadd (flat hot ! p) (flat hot ! (?s + p))) 2) [0..<?s]\<rparr>"
  define cm where "cm = \<lparr>shape = rest, flat = map (\<lambda>p. fdivn (fadd (flat cold ! p) (flat cold ! (?s + p))) 2) [0..<?s]\<rparr>"
  have hm: "mean_axis 0 hot = Inr hm"
    using hot(2) by (simp add: mean_axis_def Let_def mean_list_def upt_0_2 fsum2 hm_def)
  have cm: "mean_axis 0 cold = Inr cm"
    using cold(2) by (simp add: mean_axis_def Let_def mean_list_def upt_0_2 fsum2 cm_def)
  have es: "entropy_signal data =
      Inr (arr_scale (Num (- 1)) \<lparr>shape = rest, flat = map (\<lambda>(x, y). fsub x y) (zip (flat hm) (flat cm))\<rparr>)"
    using assms(2) hot(1) cold(1) hm cm
    by (simp add: entropy_signal_def bind_err_def arr_sub_def hm_def cm_def)
  show ?thesis
    using hot(3) cold(3)
    by (simp add: es arr_scale_def wf_array_def hm_def cm_def scale_neg elem0_def assms(2))
qed

text \<open>
  Claim C1. For every array whose first axis has length 4, \<open>entropy_signal\<close> returns an array
  of the shape of \<open>data\<close> without its first axis, and its element at every position \<open>i\<close> is
  \<open>-((data[1] + data[3]) / 2 - (data[0] + data[2]) / 2)\<close> at that position.
\<close>

theorem entropy_signal_elementwise:
  assumes "wf_array data" and "shape data = 4 # rest"
  shows "\<exists>r. entropy_signal data = Inr r \<and> shape r = rest \<and> wf_array r \<and>
           (\<forall>i < prod_list rest.
              flat r ! i = fneg (fsub (fdivn (fadd (elem0 data 1 i) (elem0 data 3 i)) 2)
                                      (fdivn (fadd (elem0 data 0 i) (elem0 data 2 i)) 2)))"
  using assms by (rule entropy_signal_value)

theorem entropy_signal_elementwise_witness:
  "\<exists>r. entropy_signal \<lparr>shape = [4, 2], flat = map Num [1, 2, 3, 4, 5, 6, 7, 8]\<rparr> = Inr r \<and> shape r = [2] \<and> wf_array r \<and>
           (\<forall>i < prod_list [2].
              flat r ! i = fneg (fsub (fdivn (fadd (elem0 \<lparr>shape = [4, 2], flat = map Num [1, 2, 3, 4, 5, 6, 7, 8]\<rparr> 1 i) (elem0 \<lparr>shape = [4, 2], flat = map Num [1, 2, 3, 4, 5, 6, 7, 8]\<rparr> 3 i)) 2)
                                      (fdivn (fadd (elem0 \<lparr>shape = [4, 2], flat = map Num [1, 2, 3, 4, 5, 6, 7, 8]\<rparr> 0 i) (elem0 \<lparr>shape = [4, 2], flat = map Num [1, 2, 3, 4, 5, 6, 7, 8]\<rparr> 2 i)) 2)))"
  by (rule entropy_signal_elementwise) (simp_all add: wf_array_def)

section \<open>Properties of the wave masks\<close>


















section \<open>Properties of bin_data_new\<close>

lemma mean_list_single: "mean_list [x] = x"
  by (cases x) (simp_all add: mean_list_def fsum_def)

lemma idx3_bound:
  fixes z y x :: nat
  assumes "z < Z" "y < Y" "x < X"
  shows "(z * Y + y) * X + x < Z * Y * X"
proof -
  have "z * Y + y < Z * Y"
    using assms(1,2) by (metis Suc_leI add.commute le_trans mult_Suc mult_le_mono1 nat_add_left_cancel_less not_less)
  then have "(z * Y + y) * X + x < (z * Y + y) * X + X" using assms(3) by simp
  also have "\<dots> = Suc (z * Y + y) * X" by simp
  also have "\<dots> \<le> Z * Y * X" using \<open>z * Y + y < Z * Y\<close> by (metis Suc_leI mult_le_mono1)
  finally show ?thesis .
qed

lemma idx3_div_mod:
  fixes z y x :: nat
  assumes "y < Y" "x < X"
  shows "((z * Y + y) * X + x) div X = z * Y + y"
    and "((z * Y + y) * X + x) mod X = x"
    and "((z * Y + y) * X + x) div (Y * X) = z"
    and "((z * Y + y) * X + x) mod (Y * X) = y * X + x"
    and "((z * Y + y) * X + x) div X mod Y = y"
proof -
  show a: "((z * Y + y) * X + x) div X = z * Y + y" using assms(2) by simp
  show "((z * Y + y) * X + x) mod X = x" using assms(2) by simp
  have yx: "y * X + x < Y * X" using idx3_bound[of 0 1 y Y x X] assms by simp
  have e: "(z * Y + y) * X + x = z * (Y * X) + (y * X + x)" by (simp add: algebra_simps)
  have pos: "0 < Y * X" using yx by (cases "Y * X") simp_all
  have "(z * (Y * X) + (y * X + x)) div (Y * X) = z + (y * X + x) div (Y * X)"
    using pos by (metis add.commute div_mult_self1 less_numeral_extra(3) mult.commute)
  then show "((z * Y + y) * X + x) div (Y * X) = z" unfolding e using yx by simp
  have "(z * (Y * X) + (y * X + x)) mod (Y * X) = (y * X + x) mod (Y * X)"
    by (metis add.commute mod_mult_self1 mult.commute)
  then show "((z * Y + y) * X + x) mod (Y * X) = y * X + x" unfolding e using yx by simp
  show "((z * Y + y) * X + x) div X mod Y = y" unfolding a using assms(1) by simp
qed

lemma at3_shape: "shape a = [Z, Y, X] \<Longrightarrow> at3 a z y x = flat a ! ((z * Y + y) * X + x)"
  by (simp add: at3_def)

lemma slice_axis0_3d:
  fixes lo m :: nat
  assumes sh: "shape a = [Z, Y, X]"
  defines "r \<equiv> slice_axis 0 lo (lo + m) a"
  shows "shape r = [m, Y, X]" and "length (flat r) = m * Y * X"
    and "\<And>z y x. z < m \<Longrightarrow> y < Y \<Longrightarrow> x < X \<Longrightarrow> at3 r z y x = at3 a (lo + z) y x"
proof -
  show s: "shape r = [m, Y, X]" by (simp add: r_def slice_axis_def sh Let_def)
  show "length (flat r) = m * Y * X" by (simp add: r_def slice_axis_def sh Let_def)
  fix z y x assume b: "z < m" "y < Y" "x < X"
  let ?p = "(z * Y + y) * X + x"
  have pb: "?p < m * Y * X" by (rule idx3_bound[OF b])
  have d0: "?p div (m * (Y * X)) = 0" using pb by (simp add: mult.assoc)
  note D = idx3_div_mod[OF b(2,3), of z]
  have "flat r ! ?p = flat a ! ((lo + z) * (Y * X) + (y * X + x))"
    using pb b by (simp add: r_def slice_axis_def sh d0 D Let_def)
  then show "at3 r z y x = at3 a (lo + z) y x"
    by (simp add: at3_shape[OF s] at3_shape[OF sh] algebra_simps)
qed

lemma slice_axis1_3d:
  fixes lo m :: nat
  assumes sh: "shape a = [Z, Y, X]"
  defines "r \<equiv> slice_axis 1 lo (lo + m) a"
  shows "shape r = [Z, m, X]" and "length (flat r) = Z * m * X"
    and "\<And>z y x. z < Z \<Longrightarrow> y < m \<Longrightarrow> x < X \<Longrightarrow> at3 r z y x = at3 a z (lo + y) x"
proof -
  show s: "shape r = [Z, m, X]" by (simp add: r_def slice_axis_def sh Let_def)
  show "length (flat r) = Z * m * X" by (simp add: r_def slice_axis_def sh Let_def)
  fix z y x assume b: "z < Z" "y < m" "x < X"
  let ?p = "(z * m + y) * X + x"
  have pb: "?p < Z * m * X" by (rule idx3_bound[OF b])
  note D = idx3_div_mod[OF b(2,3), of z]
  have "flat r ! ?p = flat a ! ((z * Y + lo + y) * X + x)"
    using pb b by (simp add: r_def slice_axis_def sh D Let_def)
  then show "at3 r z y x = at3 a z (lo + y) x"
    by (simp add: at3_shape[OF s] at3_shape[OF sh] algebra_simps)
qed

lemma slice_axis2_3d:
  fixes lo m :: nat
  assumes sh: "shape a = [Z, Y, X]"
  defines "r \<equiv> slice_axis 2 lo (lo + m) a"
  shows "shape r = [Z, Y, m]" and "length (flat r) = Z * Y * m"
    and "\<And>z y x. z < Z \<Longrightarrow> y < Y \<Longrightarrow> x < m \<Longrightarrow> at3 r z y x = at3 a z y (lo + x)"
proof -
  show s: "shape r = [Z, Y, m]" by (simp add: r_def slice_axis_def sh Let_def)
  show "length (flat r) = Z * Y * m" by (simp add: r_def slice_axis_def sh Let_def)
  fix z y x assume b: "z < Z" "y < Y" "x < m"
  let ?p = "(z * Y + y) * m + x"
  have pb: "?p < Z * Y * m" by (rule idx3_bound[OF b])
  note D = idx3_div_mod[OF b(2,3), of z]
  have "flat r ! ?p = flat a ! ((z * Y + y) * X + lo + x)"
    using pb b by (simp add: r_def slice_axis_def sh D Let_def)
  then show "at3 r z y x = at3 a z y (lo + x)"
    by (simp add: at3_shape[OF s] at3_shape[OF sh] algebra_simps)
qed

lemma reshape_nonneg:
  assumes "\<forall>d \<in> set dims. 0 \<le> d" and "prod_list (map nat dims) = length (flat a)"
  shows "reshape dims a = Inr \<lparr>shape = map nat dims, flat = flat a\<rparr>"
proof -
  have "filter (\<lambda>d. d < 0) dims = []" using assms(1) by (auto simp: filter_empty_conv)
  moreover have "filter (\<lambda>d. 0 \<le> d) dims = dims" using assms(1) by simp
  ultimately show ?thesis using assms(2) by (simp add: reshape_def Let_def)
qed

lemma mean_list_cong:
  assumes "\<And>j. j < n \<Longrightarrow> f j = g j"
  shows "mean_list (map f [0..<n]) = mean_list (map g [0..<n])"
proof -
  have "map f [0..<n] = map g [0..<n]" using assms by simp
  then show ?thesis by (rule arg_cong)
qed

lemma bin_axis2:
  assumes sh: "shape a = [Z, Y, nx * wx]" and len: "length (flat a) = Z * Y * (nx * wx)"
  shows "\<exists>a4 r. reshape [int Z, int Y, int nx, int wx] a = Inr a4 \<and> mean_axis 3 a4 = Inr r \<and>
             shape r = [Z, Y, nx] \<and> length (flat r) = Z * Y * nx \<and>
             (\<forall>z < Z. \<forall>y < Y. \<forall>i < nx.
                at3 r z y i = mean_list (map (\<lambda>d. at3 a z y (i * wx + d)) [0..<wx]))"
proof -
  define a4 where "a4 = \<lparr>shape = [Z, Y, nx, wx], flat = flat a\<rparr>"
  have rs: "reshape [int Z, int Y, int nx, int wx] a = Inr a4"
    using reshape_nonneg[of "[int Z, int Y, int nx, int wx]" a] len
    by (simp add: a4_def mult.assoc)
  define r where "r = \<lparr>shape = [Z, Y, nx],
      flat = map (\<lambda>p. mean_list (map (\<lambda>j. flat a ! (p * wx + j)) [0..<wx])) [0..<Z * Y * nx]\<rparr>"
  have m: "mean_axis 3 a4 = Inr r"
    by (simp add: mean_axis_def a4_def r_def Let_def numeral_3_eq_3 mult.assoc)
  have s: "shape r = [Z, Y, nx]" by (simp add: r_def)
  have v: "at3 r z y i = mean_list (map (\<lambda>d. at3 a z y (i * wx + d)) [0..<wx])"
    if b: "z < Z" "y < Y" "i < nx" for z y i
  proof -
    have pb: "(z * Y + y) * nx + i < Z * Y * nx" by (rule idx3_bound[OF b])
    have "at3 r z y i = mean_list (map (\<lambda>j. flat a ! (((z * Y + y) * nx + i) * wx + j)) [0..<wx])"
      using pb by (simp add: at3_shape[OF s]) (simp add: r_def)
    also have "\<dots> = mean_list (map (\<lambda>d. at3 a z y (i * wx + d)) [0..<wx])"
      by (rule mean_list_cong) (simp add: at3_shape[OF sh] algebra_simps)
    finally show ?thesis .
  qed
  show ?thesis using rs m s v by (intro exI[of _ a4] exI[of _ r]) (simp add: r_def)
qed

lemma bin_axis1:
  assumes sh: "shape a = [Z, ny * wy, X]" and len: "length (flat a) = Z * (ny * wy) * X"
  shows "\<exists>a4 r. reshape [int Z, int ny, int wy, int X] a = Inr a4 \<and> mean_axis 2 a4 = Inr r \<and>
             shape r = [Z, ny, X] \<and> length (flat r) = Z * ny * X \<and>
             (\<forall>z < Z. \<forall>j < ny. \<forall>x < X.
                at3 r z j x = mean_list (map (\<lambda>b. at3 a z (j * wy + b) x) [0..<wy]))"
proof -
  define a4 where "a4 = \<lparr>shape = [Z, ny, wy, X], flat = flat a\<rparr>"
  have rs: "reshape [int Z, int ny, int wy, int X] a = Inr a4"
    using reshape_nonneg[of "[int Z, int ny, int wy, int X]" a] len
    by (simp add: a4_def mult.assoc)
  define r where "r = \<lparr>shape = [Z, ny, X],
      flat = map (\<lambda>p. mean_list (map (\<lambda>j. flat a ! ((p div X * wy + j) * X + p mod X)) [0..<wy]))
                 [0..<Z * ny * X]\<rparr>"
  have m: "mean_axis 2 a4 = Inr r"
    by (simp add: mean_axis_def a4_def r_def Let_def numeral_2_eq_2 mult.assoc)
  have s: "shape r = [Z, ny, X]" by (simp add: r_def)
  have v: "at3 r z j x = mean_list (map (\<lambda>b. at3 a z (j * wy + b) x) [0..<wy])"
    if b: "z < Z" "j < ny" "x < X" for z j x
  proof -
    have pb: "(z * ny + j) * X + x < Z * ny * X" by (rule idx3_bound[OF b])
    note D = idx3_div_mod[OF b(2,3), of z]
    have "at3 r z j x = mean_list (map (\<lambda>b. flat a ! (((z * ny + j) * wy + b) * X + x)) [0..<wy])"
      using pb b by (simp add: at3_shape[OF s]) (simp add: r_def D)
    also have "\<dots> = mean_list (map (\<lambda>b. at3 a z (j * wy + b) x) [0..<wy])"
      by (rule mean_list_cong) (simp add: at3_shape[OF sh] algebra_simps)
    finally show ?thesis .
  qed
  show ?thesis using rs m s v by (intro exI[of _ a4] exI[of _ r]) (simp add: r_def)
qed

lemma bin_axis0:
  assumes sh: "shape a = [nz * wz, Y, X]" and len: "length (flat a) = (nz * wz) * Y * X"
  shows "\<exists>a4 r. reshape [int nz, int wz, int Y, int X] a = Inr a4 \<and> mean_axis 1 a4 = Inr r \<and>
             shape r = [nz, Y, X] \<and> length (flat r) = nz * Y * X \<and>
             (\<forall>k < nz. \<forall>y < Y. \<forall>x < X.
                at3 r k y x = mean_list (map (\<lambda>c. at3 a (k * wz + c) y x) [0..<wz]))"
proof -
  define a4 where "a4 = \<lparr>shape = [nz, wz, Y, X], flat = flat a\<rparr>"
  have rs: "reshape [int nz, int wz, int Y, int X] a = Inr a4"
    using reshape_nonneg[of "[int nz, int wz, int Y, int X]" a] len
    by (simp add: a4_def mult.assoc)
  define r where "r = \<lparr>shape = [nz, Y, X],
      flat = map (\<lambda>p. mean_list (map (\<lambda>j. flat a ! ((p div (Y * X) * wz + j) * (Y * X) + p mod (Y * X))) [0..<wz]))
                 [0..<nz * (Y * X)]\<rparr>"
  have m: "mean_axis 1 a4 = Inr r"
    by (simp add: mean_axis_def a4_def r_def Let_def)
  have s: "shape r = [nz, Y, X]" by (simp add: r_def)
  have v: "at3 r k y x = mean_list (map (\<lambda>c. at3 a (k * wz + c) y x) [0..<wz])"
    if b: "k < nz" "y < Y" "x < X" for k y x
  proof -
    have pb: "(k * Y + y) * X + x < nz * (Y * X)" using idx3_bound[OF b] by (simp add: mult.assoc)
    note D = idx3_div_mod[OF b(2,3), of k]
    have "at3 r k y x = mean_list (map (\<lambda>c. flat a ! ((k * wz + c) * (Y * X) + (y * X + x))) [0..<wz])"
      using pb b by (simp add: at3_shape[OF s]) (simp add: r_def D)
    also have "\<dots> = mean_list (map (\<lambda>c. at3 a (k * wz + c) y x) [0..<wz])"
      by (rule mean_list_cong) (simp add: at3_shape[OF sh] algebra_simps)
    finally show ?thesis .
  qed
  show ?thesis using rs m s v by (intro exI[of _ a4] exI[of _ r]) (simp add: r_def mult.assoc)
qed

lemma chop_facts:
  fixes s :: nat and bin :: int
  assumes "1 \<le> bin" and "bin \<le> int s" and w: "w = nat bin"
  shows "int s div bin = int (s div w)"
    and "int s - (int s div bin) * bin = int (s mod w)"
    and "clamp_index s (int (s mod w) div 2) = lead s w"
    and "clamp_index s (int s - ceil_half (int (s mod w))) = lead s w + (s div w) * w"
    and "lead s w + (s div w) * w \<le> s"
proof -
  have bw: "bin = int w" using assms by simp
  show d: "int s div bin = int (s div w)" by (simp add: bw zdiv_int)
  have split: "int s = int (s div w) * int w + int (s mod w)"
    by (simp only: of_nat_mult[symmetric] of_nat_add[symmetric] div_mult_mod_eq)
  have d2: "int s div int w = int (s div w)" by (simp add: zdiv_int)
  show "int s - (int s div bin) * bin = int (s mod w)"
    unfolding bw d2 using split by linarith
  have l: "int (s mod w) div 2 = int (lead s w)" by (simp add: lead_def zdiv_int)
  have lm: "lead s w \<le> s mod w" unfolding lead_def by simp
  have ms: "s mod w \<le> s" by simp
  have ls: "lead s w \<le> s" using lm ms by (rule le_trans)
  show "clamp_index s (int (s mod w) div 2) = lead s w"
    unfolding l using ls by (simp add: clamp_index_def min_def)
  have c: "ceil_half (int (s mod w)) = int (s mod w) - int (lead s w)"
    unfolding ceil_half_def l[symmetric] by linarith
  have e: "int s - ceil_half (int (s mod w)) = int (lead s w + (s div w) * w)"
    unfolding c using split by simp
  have "(s div w) * w + s mod w = s" by simp
  then show fit: "lead s w + (s div w) * w \<le> s" using lm by linarith
  then show "clamp_index s (int s - ceil_half (int (s mod w))) = lead s w + (s div w) * w"
    unfolding e by (simp add: clamp_index_def min_def del: of_nat_add of_nat_mult)
qed

lemma bin_index_bound:
  fixes k c n w :: nat
  assumes "k < n" and "c < w"
  shows "k * w + c < n * w"
proof -
  have "k * w + c < k * w + w" using assms(2) by simp
  also have "\<dots> = Suc k * w" by simp
  also have "\<dots> \<le> n * w" using assms(1) by (metis Suc_leI mult_le_mono1)
  finally show ?thesis .
qed

lemma take_drop_map_nth:
  assumes "s + n \<le> length xs"
  shows "take n (drop s xs) = map (\<lambda>d. xs ! (s + d)) [0..<n]"
  using assms by (intro nth_equalityI) simp_all

lemma bin_core:
  assumes sh: "shape data = [sz, sy, sx]" and len: "length (flat data) = sz * sy * sx"
    and bx: "1 \<le> bin_x" "bin_x \<le> int sx" "wx = nat bin_x"
    and by': "1 \<le> bin_y" "bin_y \<le> int sy" "wy = nat bin_y"
    and bz: "1 \<le> bin_z" "bin_z \<le> int sz" "wz = nat bin_z"
  defines "nz \<equiv> sz div wz" and "ny \<equiv> sy div wy" and "nx \<equiv> sx div wx"
  defines "data1 \<equiv>
     py_slice_axis 2 ((int sx - (int sx div bin_x) * bin_x) div 2)
                     (int sx - ceil_half (int sx - (int sx div bin_x) * bin_x))
       (py_slice_axis 1 ((int sy - (int sy div bin_y) * bin_y) div 2)
                        (int sy - ceil_half (int sy - (int sy div bin_y) * bin_y))
         (py_slice_axis 0 ((int sz - (int sz div bin_z) * bin_z) div 2)
                          (int sz - ceil_half (int sz - (int sz div bin_z) * bin_z)) data))"
  shows "\<exists>d1 d2 d3 d4 d5 d6.
           shape data1 = [nz * wz, ny * wy, nx * wx] \<and>
           reshape [int (nz * wz), int (ny * wy), int sx div bin_x, bin_x] data1 = Inr d1 \<and>
           mean_axis 3 d1 = Inr d2 \<and>
           reshape [int (nz * wz), int sy div bin_y, bin_y, int sx div bin_x] d2 = Inr d3 \<and>
           mean_axis 2 d3 = Inr d4 \<and>
           reshape [int sz div bin_z, bin_z, int sy div bin_y, int sx div bin_x] d4 = Inr d5 \<and>
           mean_axis 1 d5 = Inr d6 \<and>
           shape d6 = [nz, ny, nx] \<and> length (flat d6) = nz * ny * nx \<and>
           (\<forall>k < nz. \<forall>j < ny. \<forall>i < nx. at3 d6 k j i = bin_mean data wz wy wx k j i)"
proof -
  note CX = chop_facts[OF bx] and CY = chop_facts[OF by'] and CZ = chop_facts[OF bz]
  let ?lz = "lead sz wz" and ?ly = "lead sy wy" and ?lx = "lead sx wx"
  define s0 where "s0 = slice_axis 0 ?lz (?lz + nz * wz) data"
  define s1 where "s1 = slice_axis 1 ?ly (?ly + ny * wy) s0"
  define s2 where "s2 = slice_axis 2 ?lx (?lx + nx * wx) s1"
  note S0 = slice_axis0_3d[OF sh, where lo = "?lz" and m = "nz * wz", folded s0_def]
  note S1 = slice_axis1_3d[OF S0(1), where lo = "?ly" and m = "ny * wy", folded s1_def]
  note S2 = slice_axis2_3d[OF S1(1), where lo = "?lx" and m = "nx * wx", folded s2_def]
  have p0: "py_slice_axis 0 ((int sz - (int sz div bin_z) * bin_z) div 2)
              (int sz - ceil_half (int sz - (int sz div bin_z) * bin_z)) data = s0"
    unfolding py_slice_axis_def CZ(2) using CZ(3,4) by (simp add: sh s0_def nz_def)
  have p1: "py_slice_axis 1 ((int sy - (int sy div bin_y) * bin_y) div 2)
              (int sy - ceil_half (int sy - (int sy div bin_y) * bin_y)) s0 = s1"
    unfolding py_slice_axis_def CY(2) using CY(3,4) by (simp add: S0(1) s1_def ny_def)
  have p2: "py_slice_axis 2 ((int sx - (int sx div bin_x) * bin_x) div 2)
              (int sx - ceil_half (int sx - (int sx div bin_x) * bin_x)) s1 = s2"
    unfolding py_slice_axis_def CX(2) using CX(3,4) by (simp add: S1(1) s2_def nx_def)
  have d1: "data1 = s2" unfolding data1_def p0 p1 p2 ..
  have wxp: "bin_x = int wx" "bin_y = int wy" "bin_z = int wz" using bx by' bz by simp_all
  have nums: "int sx div bin_x = int nx" "int sy div bin_y = int ny" "int sz div bin_z = int nz"
    using CX(1) CY(1) CZ(1) by (simp_all add: nx_def ny_def nz_def)
  from bin_axis2[OF S2(1,2)] obtain a1 r2 where A:
    "reshape [int (nz * wz), int (ny * wy), int nx, int wx] s2 = Inr a1" "mean_axis 3 a1 = Inr r2"
    "shape r2 = [nz * wz, ny * wy, nx]" "length (flat r2) = nz * wz * (ny * wy) * nx"
    "\<forall>z < nz * wz. \<forall>y < ny * wy. \<forall>i < nx.
        at3 r2 z y i = mean_list (map (\<lambda>d. at3 s2 z y (i * wx + d)) [0..<wx])"
    by blast
  from bin_axis1[OF A(3,4)] obtain a3 r4 where B:
    "reshape [int (nz * wz), int ny, int wy, int nx] r2 = Inr a3" "mean_axis 2 a3 = Inr r4"
    "shape r4 = [nz * wz, ny, nx]" "length (flat r4) = nz * wz * ny * nx"
    "\<forall>z < nz * wz. \<forall>j < ny. \<forall>x < nx.
        at3 r4 z j x = mean_list (map (\<lambda>b. at3 r2 z (j * wy + b) x) [0..<wy])"
    by blast
  from bin_axis0[OF B(3,4)] obtain a5 r6 where C:
    "reshape [int nz, int wz, int ny, int nx] r4 = Inr a5" "mean_axis 1 a5 = Inr r6"
    "shape r6 = [nz, ny, nx]" "length (flat r6) = nz * ny * nx"
    "\<forall>k < nz. \<forall>y < ny. \<forall>x < nx.
        at3 r6 k y x = mean_list (map (\<lambda>c. at3 r4 (k * wz + c) y x) [0..<wz])"
    by blast
  have val: "at3 r6 k j i = bin_mean data wz wy wx k j i" if b: "k < nz" "j < ny" "i < nx" for k j i
  proof -
    have "at3 r6 k j i = mean_list (map (\<lambda>c. at3 r4 (k * wz + c) j i) [0..<wz])"
      using C(5) b by blast
    also have "\<dots> = mean_list (map (\<lambda>c. mean_list (map (\<lambda>b.
                   mean_list (map (\<lambda>d. at3 data (?lz + k * wz + c) (?ly + j * wy + b) (?lx + i * wx + d))
                     [0..<wx])) [0..<wy])) [0..<wz])"
    proof (rule mean_list_cong)
      fix c assume c: "c < wz"
      have zc: "k * wz + c < nz * wz" by (rule bin_index_bound[OF b(1) c])
      have "at3 r4 (k * wz + c) j i = mean_list (map (\<lambda>b. at3 r2 (k * wz + c) (j * wy + b) i) [0..<wy])"
        using B(5) zc b by blast
      also have "\<dots> = mean_list (map (\<lambda>b.
                   mean_list (map (\<lambda>d. at3 data (?lz + k * wz + c) (?ly + j * wy + b) (?lx + i * wx + d))
                     [0..<wx])) [0..<wy])"
      proof (rule mean_list_cong)
        fix b' assume b': "b' < wy"
        have yb: "j * wy + b' < ny * wy" by (rule bin_index_bound[OF b(2) b'])
        have "at3 r2 (k * wz + c) (j * wy + b') i =
                mean_list (map (\<lambda>d. at3 s2 (k * wz + c) (j * wy + b') (i * wx + d)) [0..<wx])"
          using A(5) zc yb b by blast
        also have "\<dots> = mean_list (map (\<lambda>d. at3 data (?lz + k * wz + c) (?ly + j * wy + b') (?lx + i * wx + d))
                     [0..<wx])"
        proof (rule mean_list_cong)
          fix d assume d: "d < wx"
          have xd: "i * wx + d < nx * wx" by (rule bin_index_bound[OF b(3) d])
          have "at3 s2 (k * wz + c) (j * wy + b') (i * wx + d) = at3 s1 (k * wz + c) (j * wy + b') (?lx + (i * wx + d))"
            by (rule S2(3)[OF zc yb xd])
          also have "\<dots> = at3 s0 (k * wz + c) (?ly + (j * wy + b')) (?lx + (i * wx + d))"
            by (rule S1(3)) (use zc yb xd CX(5) in \<open>simp_all add: nx_def\<close>)
          also have "\<dots> = at3 data (?lz + (k * wz + c)) (?ly + (j * wy + b')) (?lx + (i * wx + d))"
            by (rule S0(3)) (use zc yb xd CX(5) CY(5) in \<open>simp_all add: nx_def ny_def\<close>)
          finally show "at3 s2 (k * wz + c) (j * wy + b') (i * wx + d) =
                        at3 data (?lz + k * wz + c) (?ly + j * wy + b') (?lx + i * wx + d)"
            by (simp add: add.assoc)
        qed
        finally show "at3 r2 (k * wz + c) (j * wy + b') i =
            mean_list (map (\<lambda>d. at3 data (?lz + k * wz + c) (?ly + j * wy + b') (?lx + i * wx + d)) [0..<wx])" .
      qed
      finally show "at3 r4 (k * wz + c) j i = mean_list (map (\<lambda>b.
                   mean_list (map (\<lambda>d. at3 data (?lz + k * wz + c) (?ly + j * wy + b) (?lx + i * wx + d))
                     [0..<wx])) [0..<wy])" .
    qed
    finally show ?thesis by (simp add: bin_mean_def sh)
  qed
  note nums' = nums[unfolded wxp]
  show ?thesis
    unfolding d1 wxp nums'
    using S2(1) A(1,2) B(1,2) C(1,2,3,4) val by blast
qed

lemma index0_whole:
  assumes "shape a = 1 # rest" and "length (flat a) = prod_list rest"
  shows "index0 a 0 = Inr \<lparr>shape = rest, flat = flat a\<rparr>"
  using assms by (simp add: index0_def)

text \<open>
  Claim C9. For an array of one, two or three dimensions, read as a three-dimensional array of
  shape \<open>[sz, sy, sx]\<close> (missing leading axes have length 1), and bin sizes between 1 and the length
  of their axis, \<open>bin_data_new\<close> returns an array of as many dimensions as its input, of
  \<open>floor(s / w)\<close> elements along each axis; the element at \<open>(k, j, i)\<close> is the mean over the bin of
  consecutive elements starting \<open>floor(r / 2)\<close> elements into each axis, \<open>r\<close> being the remainder of
  the axis. For a one-dimensional input of length \<open>n\<close> binned by \<open>b\<close>, element \<open>j\<close> is the mean of the \<open>b\<close>
  input elements from position \<open>floor(r / 2) + j * b\<close> on.
\<close>

theorem bin_data_new_means:
  assumes wf: "wf_array data" and nd: "ndim data \<in> {1, 2, 3}"
    and sh3: "replicate (3 - ndim data) 1 @ shape data = [sz, sy, sx]"
    and bx: "1 \<le> bin_x" "bin_x \<le> int sx" "wx = nat bin_x"
    and by': "1 \<le> bin_y" "bin_y \<le> int sy" "wy = nat bin_y"
    and bz: "1 \<le> bin_z" "bin_z \<le> int sz" "wz = nat bin_z"
  shows "\<exists>out. bin_data_new data bin_x bin_y bin_z = Inr out \<and>
           ndim out = ndim data \<and>
           shape out = drop (3 - ndim data) [sz div wz, sy div wy, sx div wx] \<and>
           wf_array out \<and>
           (\<forall>k < sz div wz. \<forall>j < sy div wy. \<forall>i < sx div wx.
              flat out ! ((k * (sy div wy) + j) * (sx div wx) + i) = bin_mean (ndmin 3 data) wz wy wx k j i) \<and>
           (ndim data = 1 \<longrightarrow>
              (\<forall>j < sx div wx. flat out ! j = mean_list (take wx (drop (lead sx wx + j * wx) (flat data)))))"
proof -
  define d3 where "d3 = ndmin 3 data"
  have sh: "shape d3 = [sz, sy, sx]" using sh3 by (simp add: d3_def ndmin_def ndim_def)
  have fl: "flat d3 = flat data" by (simp add: d3_def ndmin_def)
  have "prod_list (shape data) = prod_list (replicate (3 - ndim data) 1 @ shape data)" by simp
  then have len: "length (flat d3) = sz * sy * sx"
    using wf unfolding sh3 fl wf_array_def by simp
  define nz ny nx where "nz = sz div wz" and "ny = sy div wy" and "nx = sx div wx"
  from bin_core[OF sh len bx by' bz, folded nz_def ny_def nx_def] obtain d1 d2 d3' d4 d5 d6 where D:
    "shape (py_slice_axis 2 ((int sx - (int sx div bin_x) * bin_x) div 2)
                     (int sx - ceil_half (int sx - (int sx div bin_x) * bin_x))
       (py_slice_axis 1 ((int sy - (int sy div bin_y) * bin_y) div 2)
                        (int sy - ceil_half (int sy - (int sy div bin_y) * bin_y))
         (py_slice_axis 0 ((int sz - (int sz div bin_z) * bin_z) div 2)
                          (int sz - ceil_half (int sz - (int sz div bin_z) * bin_z)) d3))) = [nz * wz, ny * wy, nx * wx]"
    "reshape [int (nz * wz), int (ny * wy), int sx div bin_x, bin_x]
       (py_slice_axis 2 ((int sx - (int sx div bin_x) * bin_x) div 2)
                     (int sx - ceil_half (int sx - (int sx div bin_x) * bin_x))
       (py_slice_axis 1 ((int sy - (int sy div bin_y) * bin_y) div 2)
                        (int sy - ceil_half (int sy - (int sy div bin_y) * bin_y))
         (py_slice_axis 0 ((int sz - (int sz div bin_z) * bin_z) div 2)
                          (int sz - ceil_half (int sz - (int sz div bin_z) * bin_z)) d3))) = Inr d1"
    "mean_axis 3 d1 = Inr d2"
    "reshape [int (nz * wz), int sy div bin_y, bin_y, int sx div bin_x] d2 = Inr d3'"
    "mean_axis 2 d3' = Inr d4"
    "reshape [int sz div bin_z, bin_z, int sy div bin_y, int sx div bin_x] d4 = Inr d5"
    "mean_axis 1 d5 = Inr d6"
    "shape d6 = [nz, ny, nx]" "length (flat d6) = nz * ny * nx"
    "\<forall>k < nz. \<forall>j < ny. \<forall>i < nx. at3 d6 k j i = bin_mean d3 wz wy wx k j i"
    by blast
  have nth3: "[sz, sy, sx] ! 0 = sz" "[sz, sy, sx] ! 1 = sy" "[sz, sy, sx] ! 2 = sx"
    "[nz * wz, ny * wy, nx * wx] ! 0 = nz * wz" "[nz * wz, ny * wy, nx * wx] ! 1 = ny * wy"
    by simp_all
  have nz0: "\<not> (bin_z = 0 \<or> bin_y = 0 \<or> bin_x = 0)" using bx by' bz by simp
  define fin where "fin = (if ndim data = 3 then Inr d6
                else if ndim data = 2 then index0 d6 0
                else if ndim data = 1 then bind_err (index0 d6 0) (\<lambda>r. index0 r 0)
                else Inr d6)"
  have run: "bin_data_new data bin_x bin_y bin_z = fin"
    unfolding bin_data_new_def Let_def d3_def[symmetric] sh nth3 if_not_P[OF nz0] D(1) D(2)
      bind_err_def sum.case D(3) D(4) D(5) D(6) D(7) fin_def ..
  have flat_at: "flat d6 ! ((k * ny + j) * nx + i) = bin_mean d3 wz wy wx k j i"
    if "k < nz" "j < ny" "i < nx" for k j i
    using D(10) that by (simp add: at3_shape[OF D(8), symmetric])
  consider (three) "ndim data = 3" | (two) "ndim data = 2" | (one) "ndim data = 1" using nd by auto
  then show ?thesis
  proof cases
    case three
    have "fin = Inr d6" by (simp add: fin_def three)
    then show ?thesis
      using run D(8,9) flat_at three
      by (simp add: ndim_def wf_array_def nz_def ny_def nx_def d3_def)
  next
    case two
    then have "sz = 1" using sh3 by (simp add: ndim_def)
    then have "wz = 1" using bz by simp
    then have nz1: "nz = 1" using \<open>sz = 1\<close> by (simp add: nz_def)
    define out where "out = \<lparr>shape = [ny, nx], flat = flat d6\<rparr>"
    have "index0 d6 0 = Inr out"
      using index0_whole[of d6 "[ny, nx]"] D(8,9) by (simp add: nz1 out_def)
    then have "fin = Inr out" by (simp add: fin_def two)
    moreover have "flat out ! ((k * ny + j) * nx + i) = bin_mean d3 wz wy wx k j i"
      if "k < nz" "j < ny" "i < nx" for k j i
      using flat_at[OF that] by (simp add: out_def)
    ultimately show ?thesis
      using run D(9) two nz1
      by (simp add: ndim_def wf_array_def out_def nz_def[symmetric] ny_def[symmetric] nx_def[symmetric] d3_def[symmetric])
  next
    case one
    then have s1: "sz = 1" "sy = 1" "shape data = [sx]" using sh3 by (simp_all add: ndim_def numeral_3_eq_3)
    then have w1: "wz = 1" "wy = 1" using bz by' by simp_all
    then have n1: "nz = 1" "ny = 1" using s1 by (simp_all add: nz_def ny_def)
    define mid where "mid = \<lparr>shape = [1, nx], flat = flat d6\<rparr>"
    define out where "out = \<lparr>shape = [nx], flat = flat d6\<rparr>"
    have "index0 d6 0 = Inr mid"
      using index0_whole[of d6 "[1, nx]"] D(8,9) by (simp add: n1 mid_def)
    moreover have "index0 mid 0 = Inr out"
      using index0_whole[of mid "[nx]"] D(9) by (simp add: n1 mid_def out_def)
    ultimately have f: "fin = Inr out" by (simp add: fin_def one bind_err_def)
    have v: "flat out ! ((k * ny + j) * nx + i) = bin_mean d3 wz wy wx k j i"
      if "k < nz" "j < ny" "i < nx" for k j i
      using flat_at[OF that] by (simp add: out_def)
    have simple: "flat out ! j = mean_list (take wx (drop (lead sx wx + j * wx) (flat data)))"
      if j: "j < nx" for j
    proof -
      have fit: "lead sx wx + nx * wx \<le> sx" using chop_facts(5)[OF bx] by (simp add: nx_def)
      have "j * wx + wx \<le> nx * wx" using j by (metis Suc_leI mult_Suc mult_le_mono1 add.commute)
      then have bnd: "lead sx wx + j * wx + wx \<le> length (flat data)"
        using fit wf s1(3) by (simp add: wf_array_def)
      have "flat out ! j = bin_mean d3 1 1 wx 0 0 j" using v[of 0 0 j] j n1 w1 by simp
      also have "\<dots> = mean_list (map (\<lambda>d. flat data ! (lead sx wx + j * wx + d)) [0..<wx])"
        by (simp add: bin_mean_def mean_list_single at3_shape[OF sh] sh s1 lead_def fl)
      also have "\<dots> = mean_list (take wx (drop (lead sx wx + j * wx) (flat data)))"
        using take_drop_map_nth[OF bnd] by simp
      finally show ?thesis .
    qed
    show ?thesis
      using run f D(9) one n1 v simple
      by (simp add: ndim_def wf_array_def out_def nz_def[symmetric] ny_def[symmetric] nx_def[symmetric] d3_def[symmetric])
  qed
qed

theorem bin_data_new_means_witness:
  "\<exists>out. bin_data_new example_trace 3 1 1 = Inr out \<and>
           ndim out = ndim example_trace \<and>
           shape out = drop (3 - ndim example_trace) [1 div 1, 1 div 1, 8 div 3] \<and>
           wf_array out \<and>
           (\<forall>k < 1 div 1. \<forall>j < 1 div 1. \<forall>i < 8 div 3.
              flat out ! ((k * (1 div 1) + j) * (8 div 3) + i) = bin_mean (ndmin 3 example_trace) 1 1 3 k j i) \<and>
           (ndim example_trace = 1 \<longrightarrow>
              (\<forall>j < 8 div 3. flat out ! j = mean_list (take 3 (drop (lead 8 3 + j * 3) (flat example_trace)))))"
  by (rule bin_data_new_means[where sz = 1 and sy = 1 and sx = 8 and wx = 3 and wy = 1 and wz = 1])
     (simp_all add: example_trace_def wf_array_def ndim_def numeral_2_eq_2)

section \<open>Properties of edit_params\<close>


























section \<open>Properties of the cached data access\<close>





section \<open>Properties of the dat handler\<close>

lemma ensure_dir_cases:
  obtains (fails) err where "ensure_dir env path s = (Inl err, s)"
    | (there) "dirname env path \<in> dirs s" "ensure_dir env path s = (Inr (), s)"
    | (made) "dirname env path \<notin> dirs s"
        "ensure_dir env path s = (Inr (), s\<lparr>dirs := insert (dirname env path) (dirs s),
                                            log := log s @ [MadeDir (dirname env path)]\<rparr>)"
proof (cases "ensure_dir env path s")
  case (Pair c s')
  show ?thesis
  proof (cases c)
    case (Inl err)
    then have "s' = s" using Pair
      by (auto simp: ensure_dir_def makedirs_def split: if_splits option.splits)
    then show ?thesis using fails Pair Inl by simp
  next
    case (Inr u)
    show ?thesis
    proof (cases "dirname env path \<in> dirs s")
      case True
      then show ?thesis using there by (simp add: ensure_dir_def)
    next
      case False
      then have "ensure_dir env path s = (Inr (), s\<lparr>dirs := insert (dirname env path) (dirs s),
                                            log := log s @ [MadeDir (dirname env path)]\<rparr>)"
        using Pair Inr by (auto simp: ensure_dir_def makedirs_def split: if_splits option.splits)
      then show ?thesis using made False by simp
    qed
  qed
qed

lemma get_dat_ensure_fails:
  assumes "ensure_dir env (datHDF_path e) s = (Inl err, s')"
    and "e = (case exp2hdf of Some mk \<Rightarrow> mk datnum datname | None \<Rightarrow> default_Exp2HDF env datnum datname)"
  shows "get_dat env datnum datname overwrite init_level exp2hdf s = (Inl err, s)"
proof -
  have "s' = s" using assms(1) by (auto simp: ensure_dir_def makedirs_def split: if_splits option.splits)
  then show ?thesis using assms by (simp add: get_dat_def Let_def)
qed

lemma get_dat_result_cached:
  assumes "get_dat env datnum datname overwrite init_level exp2hdf s = (Inr d, s1)"
    and "e = (case exp2hdf of Some mk \<Rightarrow> mk datnum datname | None \<Rightarrow> default_Exp2HDF env datnum datname)"
  shows "open_dats s1 (full_id_of env e datnum datname) = Some d \<and>
         dirname env (datHDF_path e) \<in> dirs s1"
proof (cases rule: ensure_dir_cases[of env "datHDF_path e" s])
  case (fails err)
  from get_dat_ensure_fails[OF this assms(2)] assms(1) show ?thesis by simp
next
  case there
  then show ?thesis using assms
    by (auto simp: get_dat_def Let_def delete_hdf_def open_hdf_def
          check_exp_data_exists_def build_dat_def
        split: if_splits option.splits sum.splits prod.splits)
next
  case made
  then show ?thesis using assms
    by (auto simp: get_dat_def Let_def delete_hdf_def open_hdf_def
          check_exp_data_exists_def build_dat_def
        split: if_splits option.splits sum.splits prod.splits)
qed

lemma get_dat_returns_cached:
  assumes "get_dat env datnum datname False init_level exp2hdf s = (Inr d, s1)"
    and "e = (case exp2hdf of Some mk \<Rightarrow> mk datnum datname | None \<Rightarrow> default_Exp2HDF env datnum datname)"
    and "open_dats s (full_id_of env e datnum datname) = Some d0"
  shows "d0 = d"
proof (cases rule: ensure_dir_cases[of env "datHDF_path e" s])
  case (fails err)
  from get_dat_ensure_fails[OF this assms(2)] assms(1) show ?thesis by simp
next
  case there
  then show ?thesis using assms by (simp add: get_dat_def Let_def)
next
  case made
  then show ?thesis using assms by (simp add: get_dat_def Let_def)
qed

lemma get_dat_hit:
  assumes "open_dats s (full_id_of env e datnum datname) = Some d"
    and "e = (case exp2hdf of Some mk \<Rightarrow> mk datnum datname | None \<Rightarrow> default_Exp2HDF env datnum datname)"
    and "dirname env (datHDF_path e) \<in> dirs s"
  shows "get_dat env datnum datname False init_level exp2hdf s = (Inr d, s)"
  using assms by (simp add: get_dat_def Let_def ensure_dir_def)

lemma delete_hdf_cases:
  obtains (refused) err where "delete_hdf env path s = (Inl err, s)"
    | (removed) "path \<in> files s"
        "delete_hdf env path s = (Inr (), s\<lparr>files := files s - {path}, log := log s @ [Removed path]\<rparr>)"
    | (absent) "path \<notin> files s" "delete_hdf env path s = (Inr (), s)"
proof (cases "path \<in> files s")
  case True
  show ?thesis
  proof (cases "remove_refused env path")
    case r: True
    then show ?thesis using refused[of PermissionError] True by (simp add: delete_hdf_def)
  next
    case False
    then show ?thesis using removed True by (simp add: delete_hdf_def)
  qed
next
  case False
  show ?thesis
  proof (cases "path \<in> dirs s")
    case True
    then show ?thesis using refused[of IsADirectoryError] False by (simp add: delete_hdf_def)
  next
    case d: False
    then show ?thesis using absent False by (simp add: delete_hdf_def)
  qed
qed

lemma get_dat_delete_fails:
  assumes ok: "ensure_dir env (datHDF_path e) s = (Inr u, s1a)"
    and e: "e = (case exp2hdf of Some mk \<Rightarrow> mk datnum datname | None \<Rightarrow> default_Exp2HDF env datnum datname)"
    and del: "delete_hdf env (datHDF_path e) s1a = (Inl err, s1b)"
  shows "get_dat env datnum datname True init_level exp2hdf s = (Inl err, s1a)"
proof -
  have "s1b = s1a" using del by (auto simp: delete_hdf_def split: if_splits)
  then show ?thesis using del unfolding get_dat_def Let_def e[symmetric] ok by simp
qed

lemma get_dat_overwrite_unfold:
  assumes ok: "ensure_dir env (datHDF_path e) s = (Inr u, s1a)"
    and e: "e = (case exp2hdf of Some mk \<Rightarrow> mk datnum datname | None \<Rightarrow> default_Exp2HDF env datnum datname)"
    and del: "delete_hdf env (datHDF_path e) s1a = (Inr u2, s1b)"
    and s2: "s2 = s1b\<lparr>open_dats := (open_dats s1b)(full_id_of env e datnum datname := None)\<rparr>"
  shows "get_dat env datnum datname True init_level exp2hdf s =
           (case check_exp_data_exists env e s2 of
              (Inl err, s3) \<Rightarrow> (Inl err, s3)
            | (Inr _, s3) \<Rightarrow>
                (case build_dat env e init_level s3 of
                   (Inl err, s4) \<Rightarrow> (Inl err, s4)
                 | (Inr d, s4) \<Rightarrow>
                     (Inr d, s4\<lparr>open_dats := (open_dats s4)(full_id_of env e datnum datname \<mapsto> d)\<rparr>)))"
proof -
  have "datHDF_path e \<notin> files s1b"
    using del by (auto simp: delete_hdf_def split: if_splits)
  then have a: "open_dats s2 (full_id_of env e datnum datname) = None" "datHDF_path e \<notin> files s2"
    by (simp_all add: s2)
  have "get_dat env datnum datname True init_level exp2hdf s =
          (case open_dats s2 (full_id_of env e datnum datname) of
             Some d \<Rightarrow> (Inr d, s2)
           | None \<Rightarrow>
               if datHDF_path e \<in> files s2 then
                 (case open_hdf env (datHDF_path e) s2 of
                    (Inl err, s3) \<Rightarrow> (Inl err, s3)
                  | (Inr d, s3) \<Rightarrow>
                      (Inr d, s3\<lparr>open_dats := (open_dats s3)(full_id_of env e datnum datname \<mapsto> d)\<rparr>))
               else
                 (case check_exp_data_exists env e s2 of
                    (Inl err, s3) \<Rightarrow> (Inl err, s3)
                  | (Inr _, s3) \<Rightarrow>
                      (case build_dat env e init_level s3 of
                         (Inl err, s4) \<Rightarrow> (Inl err, s4)
                       | (Inr d, s4) \<Rightarrow>
                           (Inr d, s4\<lparr>open_dats := (open_dats s4)(full_id_of env e datnum datname \<mapsto> d)\<rparr>))))"
    unfolding get_dat_def Let_def e[symmetric] ok by (simp add: del s2)
  then show ?thesis using a by simp
qed

lemma get_dat_overwrite:
  assumes wf: "wf_handler s"
    and run: "get_dat env datnum datname True init_level exp2hdf s = (r, s1)"
    and e: "e = (case exp2hdf of Some mk \<Rightarrow> mk datnum datname | None \<Rightarrow> default_Exp2HDF env datnum datname)"
    and ok: "ensure_dir env (datHDF_path e) s = (Inr u, s1a)"
    and del: "delete_hdf env (datHDF_path e) s1a = (Inr u2, s1b)"
  shows "(\<exists>mid. log s1 = log s @ mid @ (case r of Inr _ \<Rightarrow> [Built (datHDF_path e)] | Inl _ \<Rightarrow> []) \<and>
                Opened (datHDF_path e) \<notin> set mid \<and> Built (datHDF_path e) \<notin> set mid \<and>
                (datHDF_path e \<in> files s \<longrightarrow> Removed (datHDF_path e) \<in> set mid)) \<and>
         (case r of
            Inr d \<Rightarrow> obj_id d = next_id s \<and> hdf_path d = datHDF_path e \<and>
                     open_dats s1 (full_id_of env e datnum datname) = Some d \<and>
                     (\<forall>k d'. open_dats s k = Some d' \<longrightarrow> d' \<noteq> d)
          | Inl err \<Rightarrow> open_dats s1 (full_id_of env e datnum datname) = None)"
proof -
  let ?p = "datHDF_path e" and ?fid = "full_id_of env e datnum datname"
  define s2 where "s2 = s1b\<lparr>open_dats := (open_dats s1b)(?fid := None)\<rparr>"
  have s1a: "open_dats s1a = open_dats s" "files s1a = files s" "next_id s1a = next_id s"
    "\<exists>m. log s1a = log s @ m \<and> Opened ?p \<notin> set m \<and> Built ?p \<notin> set m \<and> Removed ?p \<notin> set m"
    using ok by (auto simp: ensure_dir_def makedirs_def split: if_splits option.splits)
  from s1a(4) obtain m1 where m1: "log s1a = log s @ m1" "Opened ?p \<notin> set m1" "Built ?p \<notin> set m1"
    by blast
  have s1b: "open_dats s1b = open_dats s1a" "next_id s1b = next_id s1a"
    using del by (auto simp: delete_hdf_def split: if_splits)
  have s2: "open_dats s2 ?fid = None" "next_id s2 = next_id s"
    "\<forall>k d'. open_dats s2 k = Some d' \<longrightarrow> open_dats s k = Some d'"
    using s1a(1,3) s1b by (auto simp: s2_def split: if_splits)
  have l2: "\<exists>m. log s2 = log s @ m \<and> Opened ?p \<notin> set m \<and> Built ?p \<notin> set m \<and>
                (?p \<in> files s \<longrightarrow> Removed ?p \<in> set m)"
  proof (cases rule: delete_hdf_cases[of env ?p s1a])
    case (refused err)
    then show ?thesis using del by simp
  next
    case removed
    then have "log s2 = log s @ (m1 @ [Removed ?p])"
      using del m1(1) by (simp add: s2_def)
    then show ?thesis using m1(2,3) by (intro exI[of _ "m1 @ [Removed ?p]"]) simp
  next
    case absent
    then have "log s2 = log s @ m1" "?p \<notin> files s" using del m1(1) s1a(2) by (simp_all add: s2_def)
    then show ?thesis using m1(2,3) by (intro exI[of _ m1]) simp
  qed
  obtain c s3 where chk: "check_exp_data_exists env e s2 = (c, s3)"
    by (cases "check_exp_data_exists env e s2")
  have s3: "open_dats s3 = open_dats s2" "next_id s3 = next_id s2"
    "\<exists>m. log s3 = log s2 @ m \<and> Opened ?p \<notin> set m \<and> Built ?p \<notin> set m"
    using chk by (auto simp: check_exp_data_exists_def Let_def split: if_splits sum.splits)
  have run': "(r, s1) = (case c of Inl err \<Rightarrow> (Inl err, s3)
       | Inr _ \<Rightarrow> (case build_dat env e init_level s3 of
                       (Inl err, s4) \<Rightarrow> (Inl err, s4)
                     | (Inr d, s4) \<Rightarrow> (Inr d, s4\<lparr>open_dats := (open_dats s4)(?fid \<mapsto> d)\<rparr>)))"
    using run chk unfolding get_dat_overwrite_unfold[OF ok e del s2_def] by simp
  from l2 obtain m2 where m2: "log s2 = log s @ m2" "Opened ?p \<notin> set m2" "Built ?p \<notin> set m2"
    "?p \<in> files s \<longrightarrow> Removed ?p \<in> set m2" by blast
  from s3(3) obtain m3 where m3: "log s3 = log s2 @ m3" "Opened ?p \<notin> set m3" "Built ?p \<notin> set m3" by blast
  have fresh: "\<forall>k d'. open_dats s k = Some d' \<longrightarrow> obj_id d' \<noteq> next_id s"
    using wf unfolding wf_handler_def by fastforce
  show ?thesis
  proof (cases c)
    case (Inl err)
    then have "r = Inl err" "s1 = s3" using run' by simp_all
    then show ?thesis using m2 m3 s3(1) s2(1)
      by (intro conjI exI[of _ "m2 @ m3"]) simp_all
  next
    case (Inr b)
    show ?thesis
    proof (cases "build_fails env e init_level")
      case (Some err)
      then have "r = Inl err" "s1 = s3" using run' Inr by (simp_all add: build_dat_def)
      then show ?thesis using m2 m3 s3(1) s2(1)
        by (intro conjI exI[of _ "m2 @ m3"]) simp_all
    next
      case None
      define d where "d = \<lparr>obj_id = next_id s3, hdf_path = ?p\<rparr>"
      have r: "r = Inr d" and s1: "log s1 = log s3 @ [Built ?p]" "open_dats s1 ?fid = Some d"
        using run' Inr None by (simp_all add: build_dat_def d_def)
      have "obj_id d = next_id s" by (simp add: d_def s3(2) s2(2))
      moreover then have "\<forall>k d'. open_dats s k = Some d' \<longrightarrow> d' \<noteq> d" using fresh by auto
      ultimately show ?thesis using r s1 m2 m3
        by (intro conjI exI[of _ "m2 @ m3"]) (simp_all add: d_def)
    qed
  qed
qed

text \<open>
  Claim C8. A call of \<open>get_dat\<close> with \<open>overwrite=False\<close> that returns a dat has it cached under
  the id built from the experiment directory name, \<open>datnum\<close> and \<open>datname\<close>, and it is the dat
  cached before the call if there was one: a second such call, whatever its \<open>init_level\<close>, returns
  the same object and changes nothing (no file is opened or built). With \<open>overwrite=True\<close>, if
  the directory of the dat file cannot be made the call raises and changes nothing, and if the
  file cannot be removed the call raises with the cache as it was; otherwise the
  dat file is removed if it exists and the cache entry is dropped, and when the call returns, the
  dat was built, not opened, it is a new object, and it is cached; when it raises, nothing is
  cached under the id.
\<close>

theorem get_dat_same_instance:
  assumes wf: "wf_handler s"
    and e: "e = (case exp2hdf of Some mk \<Rightarrow> mk datnum datname | None \<Rightarrow> default_Exp2HDF env datnum datname)"
  shows "(\<forall>d s1 lvl lvl'.
            get_dat env datnum datname False lvl exp2hdf s = (Inr d, s1) \<longrightarrow>
            open_dats s1 (full_id_of env e datnum datname) = Some d \<and>
            (\<forall>d0. open_dats s (full_id_of env e datnum datname) = Some d0 \<longrightarrow> d0 = d) \<and>
            get_dat env datnum datname False lvl' exp2hdf s1 = (Inr d, s1)) \<and>
         (\<forall>r s1 lvl.
            get_dat env datnum datname True lvl exp2hdf s = (r, s1) \<longrightarrow>
            (case ensure_dir env (datHDF_path e) s of
               (Inl err, _) \<Rightarrow> r = Inl err \<and> s1 = s
             | (Inr _, sd) \<Rightarrow>
                 (case fst (delete_hdf env (datHDF_path e) sd) of
                    Inl err \<Rightarrow> r = Inl err \<and> s1 = sd
                  | Inr _ \<Rightarrow>
                      (\<exists>mid. log s1 = log s @ mid @ (case r of Inr _ \<Rightarrow> [Built (datHDF_path e)] | Inl _ \<Rightarrow> []) \<and>
                             Opened (datHDF_path e) \<notin> set mid \<and> Built (datHDF_path e) \<notin> set mid \<and>
                             (datHDF_path e \<in> files s \<longrightarrow> Removed (datHDF_path e) \<in> set mid)) \<and>
                      (case r of
                         Inr d \<Rightarrow> obj_id d = next_id s \<and> hdf_path d = datHDF_path e \<and>
                                  open_dats s1 (full_id_of env e datnum datname) = Some d \<and>
                                  (\<forall>k d'. open_dats s k = Some d' \<longrightarrow> d' \<noteq> d)
                       | Inl err \<Rightarrow> open_dats s1 (full_id_of env e datnum datname) = None))))"
proof (intro conjI allI impI)
  fix d s1 lvl lvl'
  assume run: "get_dat env datnum datname False lvl exp2hdf s = (Inr d, s1)"
  note c = get_dat_result_cached[OF run e]
  from c show "open_dats s1 (full_id_of env e datnum datname) = Some d" by blast
  from c show "get_dat env datnum datname False lvl' exp2hdf s1 = (Inr d, s1)"
    using get_dat_hit[OF _ e] by blast
  fix d0
  assume "open_dats s (full_id_of env e datnum datname) = Some d0"
  from get_dat_returns_cached[OF run e this] show "d0 = d" .
next
  fix r s1 lvl
  assume run: "get_dat env datnum datname True lvl exp2hdf s = (r, s1)"
  obtain c sd where en: "ensure_dir env (datHDF_path e) s = (c, sd)"
    by (cases "ensure_dir env (datHDF_path e) s")
  obtain c2 sb where del: "delete_hdf env (datHDF_path e) sd = (c2, sb)"
    by (cases "delete_hdf env (datHDF_path e) sd")
  show "case ensure_dir env (datHDF_path e) s of
               (Inl err, _) \<Rightarrow> r = Inl err \<and> s1 = s
             | (Inr _, sd) \<Rightarrow>
                 (case fst (delete_hdf env (datHDF_path e) sd) of
                    Inl err \<Rightarrow> r = Inl err \<and> s1 = sd
                  | Inr _ \<Rightarrow>
                      (\<exists>mid. log s1 = log s @ mid @ (case r of Inr _ \<Rightarrow> [Built (datHDF_path e)] | Inl _ \<Rightarrow> []) \<and>
                             Opened (datHDF_path e) \<notin> set mid \<and> Built (datHDF_path e) \<notin> set mid \<and>
                             (datHDF_path e \<in> files s \<longrightarrow> Removed (datHDF_path e) \<in> set mid)) \<and>
                      (case r of
                         Inr d \<Rightarrow> obj_id d = next_id s \<and> hdf_path d = datHDF_path e \<and>
                                  open_dats s1 (full_id_of env e datnum datname) = Some d \<and>
                                  (\<forall>k d'. open_dats s k = Some d' \<longrightarrow> d' \<noteq> d)
                       | Inl err \<Rightarrow> open_dats s1 (full_id_of env e datnum datname) = None))"
  proof (cases c)
    case (Inl err)
    from get_dat_ensure_fails[OF en[unfolded Inl] e, of True lvl] run
    show ?thesis by (simp add: en Inl)
  next
    case (Inr u)
    show ?thesis
    proof (cases c2)
      case (Inl err)
      from get_dat_delete_fails[OF en[unfolded Inr] e del[unfolded Inl], of lvl] run
      show ?thesis by (simp add: en Inr del Inl)
    next
      case r2: (Inr u2)
      from get_dat_overwrite[OF wf run e en[unfolded Inr] del[unfolded r2]]
      show ?thesis by (simp add: en Inr del r2)
    qed
  qed
qed

theorem get_dat_same_instance_witness:
  "\<exists>d s1 d2 s2.
     get_dat example_env 1 ''base'' False ''min'' None example_handler = (Inr d, s1) \<and>
     open_dats s1 ''exp:base'' = Some d \<and>
     get_dat example_env 1 ''base'' False ''full'' None s1 = (Inr d, s1) \<and>
     get_dat example_env 1 ''base'' True ''min'' None example_handler = (Inr d2, s2) \<and>
     obj_id d2 = next_id example_handler \<and>
     open_dats s2 ''exp:base'' = Some d2 \<and>
     (\<exists>mid. log s2 = log example_handler @ mid @ [Built ''hdfs/datbase''] \<and>
            Opened ''hdfs/datbase'' \<notin> set mid \<and> Built ''hdfs/datbase'' \<notin> set mid)"
proof -
  let ?e = "default_Exp2HDF example_env 1 ''base''"
  let ?sd = "example_handler\<lparr>dirs := insert ''hdfs'' (dirs example_handler),
                             log := log example_handler @ [MadeDir ''hdfs'']\<rparr>"
  have wf: "wf_handler example_handler" by (simp add: wf_handler_def example_handler_def)
  have e: "?e = (case None of Some mk \<Rightarrow> mk 1 ''base'' | None \<Rightarrow> default_Exp2HDF example_env 1 ''base'')"
    by simp
  have p: "datHDF_path ?e = ''hdfs/datbase''" "full_id_of example_env ?e 1 ''base'' = ''exp:base''"
    by (simp_all add: example_env_def full_id_of_def)
  have en: "ensure_dir example_env ''hdfs/datbase'' example_handler = (Inr (), ?sd)"
    by (simp add: ensure_dir_def makedirs_def example_env_def example_handler_def)
  have del: "fst (delete_hdf example_env ''hdfs/datbase'' ?sd) = Inr ()"
    by (simp add: delete_hdf_def example_env_def example_handler_def)
  note T = get_dat_same_instance[OF wf e]
  obtain r s1 where c1: "get_dat example_env 1 ''base'' False ''min'' None example_handler = (r, s1)"
    by (cases "get_dat example_env 1 ''base'' False ''min'' None example_handler")
  have "fst (get_dat example_env 1 ''base'' False ''min'' None example_handler)
          = Inr \<lparr>obj_id = 0, hdf_path = ''hdfs/datbase''\<rparr>"
    by (simp add: get_dat_def Let_def example_env_def example_handler_def ensure_dir_def makedirs_def
          full_id_of_def check_exp_data_exists_def build_dat_def)
  then obtain d where d: "r = Inr d" using c1 by simp
  have c1': "open_dats s1 ''exp:base'' = Some d"
    "get_dat example_env 1 ''base'' False ''full'' None s1 = (Inr d, s1)"
    using T c1 d unfolding p by blast+
  obtain r2 s2 where c2: "get_dat example_env 1 ''base'' True ''min'' None example_handler = (r2, s2)"
    by (cases "get_dat example_env 1 ''base'' True ''min'' None example_handler")
  have "fst (get_dat example_env 1 ''base'' True ''min'' None example_handler)
          = Inr \<lparr>obj_id = 0, hdf_path = ''hdfs/datbase''\<rparr>"
    by (simp add: get_dat_def Let_def example_env_def example_handler_def ensure_dir_def makedirs_def
          full_id_of_def check_exp_data_exists_def build_dat_def delete_hdf_def)
  then obtain d2 where d2: "r2 = Inr d2" using c2 by simp
  from T[THEN conjunct2, rule_format, OF c2] have
    "case ensure_dir example_env (datHDF_path ?e) example_handler of
       (Inl err, _) \<Rightarrow> r2 = Inl err \<and> s2 = example_handler
     | (Inr _, sd) \<Rightarrow>
        (case fst (delete_hdf example_env (datHDF_path ?e) sd) of
           Inl err \<Rightarrow> r2 = Inl err \<and> s2 = sd
         | Inr _ \<Rightarrow>
            (\<exists>mid. log s2 = log example_handler @ mid @ (case r2 of Inr _ \<Rightarrow> [Built (datHDF_path ?e)] | Inl _ \<Rightarrow> []) \<and>
                 Opened (datHDF_path ?e) \<notin> set mid \<and> Built (datHDF_path ?e) \<notin> set mid \<and>
                 (datHDF_path ?e \<in> files example_handler \<longrightarrow> Removed (datHDF_path ?e) \<in> set mid)) \<and>
            (case r2 of
               Inr d \<Rightarrow> obj_id d = next_id example_handler \<and> hdf_path d = datHDF_path ?e \<and>
                        open_dats s2 (full_id_of example_env ?e 1 ''base'') = Some d \<and>
                        (\<forall>k d'. open_dats example_handler k = Some d' \<longrightarrow> d' \<noteq> d)
             | Inl err \<Rightarrow> open_dats s2 (full_id_of example_env ?e 1 ''base'') = None))" .
  then have "obj_id d2 = next_id example_handler" "open_dats s2 ''exp:base'' = Some d2"
    "\<exists>mid. log s2 = log example_handler @ mid @ [Built ''hdfs/datbase''] \<and>
            Opened ''hdfs/datbase'' \<notin> set mid \<and> Built ''hdfs/datbase'' \<notin> set mid"
    unfolding d2 p en by (auto simp: del)
  with c1 c1' c2 d d2 show ?thesis by blast
qed

section \<open>Properties of the saved outputs\<close>


lemma get_group_attr_DataClass:
  "get_group_attr [''check_exists'', ''group_name'', ''DataClass''] name s = Inl TypeError"
  by (simp add: get_group_attr_def accepts_keywords_def get_group_attr_parameters_def)

lemma set_group_attr_DataClass:
  "set_group_attr env [''group_name'', ''DataClass''] name out s = (Inl TypeError, s)"
  by (simp add: set_group_attr_def accepts_keywords_def set_group_attr_parameters_def)

lemma save_Outputs_raises:
  "save_Outputs env name out s = (Inl TypeError, s\<lparr>memo_Outputs := (memo_Outputs s)(name \<mapsto> out)\<rparr>)"
  by (simp add: save_Outputs_def set_group_attr_DataClass)


lemma get_Outputs_loaded:
  assumes "name \<in> set (Output_names s)" and "memo_Outputs s name = Some out"
  shows "get_Outputs env (Some name) inputs params False existing_only s = (Inr out, s)"
  using assms by (simp add: get_Outputs_def get_saved_Outputs_def)

text \<open>The second half of the claim: a name that is not saved, with \<open>existing_only=True\<close>.\<close>

lemma get_Outputs_existing_only:
  assumes "name = (case name_opt of None \<Rightarrow> ''default'' | Some n \<Rightarrow> n)"
    and "name \<notin> set (Output_names s)"
  shows "get_Outputs env name_opt inputs params overwrite True s = (Inl NotFoundInHdfError, s)"
  using assms by (simp add: get_Outputs_def)

text \<open>No call saves anything, and a call that computes never returns.\<close>

lemma compute_Outputs_raises:
  "\<exists>e s'. compute_Outputs env name inputs params overwrite s = (Inl e, s') \<and>
          hdf_outputs s' = hdf_outputs s"
proof (cases "case inputs of None \<Rightarrow> default_Input env | Some i \<Rightarrow> Inr i")
  case (Inl e)
  then show ?thesis by (simp add: compute_Outputs_def)
next
  case (Inr inp)
  then show ?thesis
    by (simp add: compute_Outputs_def Let_def save_Outputs_raises split: sum.split)
qed

lemma get_Outputs_file_unchanged:
  "hdf_outputs (snd (get_Outputs env name_opt inputs params overwrite existing_only s)) = hdf_outputs s"
proof -
  let ?n = "case name_opt of None \<Rightarrow> ''default'' | Some n \<Rightarrow> n"
  have a: "hdf_outputs (snd (get_saved_Outputs ?n s)) = hdf_outputs s"
    by (simp add: get_saved_Outputs_def get_group_attr_DataClass split: option.split)
  obtain e s' where "compute_Outputs env ?n inputs params overwrite s = (Inl e, s')"
    "hdf_outputs s' = hdf_outputs s"
    using compute_Outputs_raises by blast
  then have b: "hdf_outputs (snd (compute_Outputs env ?n inputs params overwrite s)) = hdf_outputs s"
    by simp
  show ?thesis using a b by (cases overwrite) (simp_all add: get_Outputs_def Let_def)
qed

lemma get_Outputs_returns_memo:
  assumes "get_Outputs env name_opt inputs params overwrite existing_only s = (Inr out, s1)"
  shows "\<not> overwrite \<and> s1 = s \<and>
         memo_Outputs s (case name_opt of None \<Rightarrow> ''default'' | Some n \<Rightarrow> n) = Some out"
proof -
  let ?n = "case name_opt of None \<Rightarrow> ''default'' | Some n \<Rightarrow> n"
  obtain e s' where c: "compute_Outputs env ?n inputs params overwrite s = (Inl e, s')"
    using compute_Outputs_raises by blast
  have g: "get_saved_Outputs ?n s = (Inr out, s1)" "\<not> overwrite"
    using assms c by (auto simp: get_Outputs_def Let_def split: if_splits)
  then have "s1 = s \<and> memo_Outputs s ?n = Some out"
    by (auto simp: get_saved_Outputs_def get_group_attr_DataClass split: option.splits)
  then show ?thesis using g(2) by simp
qed


section \<open>The processing of a one-row scan\<close>

lemma per_row_2d_runs:
  "(case process_per_row_parts example_input_2d example_pp of
      Inl _ \<Rightarrow> False
    | Inr out \<Rightarrow>
        cycled out = \<lparr>shape = [2, 4, 2],
                       flat = [Num 1, Num 5, Num 2, Num 6, Num 3, Num 7, Num 4, Num 8,
                               Num 1, Num 9, Num 3, Num 11, Num 5, Num 13, Num 7, Num 15]\<rparr> \<and>
        out_entropy_signal out = \<lparr>shape = [2, 2], flat = [Num (- 1), Num (- 1), Num (- 2), Num (- 2)]\<rparr>)"
  by code_simp

lemma per_row_1d_cycled:
  "bind_err (chunk_data (i_sense example_input_1d) (full_wave_masks example_input_1d)
               (setpoint_lengths example_input_1d) (num_steps example_input_1d) (num_cycles example_input_1d))
     (\<lambda>ch. bind_err (average_setpoints ch None None) (\<lambda>sa. average_cycles sa None None))
   = Inr \<lparr>shape = [4, 2], flat = [Num 1, Num 5, Num 2, Num 6, Num 3, Num 7, Num 4, Num 8]\<rparr>"
  by code_simp

text \<open>
  Claim C2, at a one-row input. For the eight samples of \<open>example_input_1d\<close> (four setpoints of
  one sample, two steps of one cycle) the chunking, the setpoint average and the cycle average
  give the four setpoint traces as an array of shape \<open>[4, 2]\<close>, since both averages drop a row
  axis of length 1; \<open>process_per_row_parts\<close> then moves axis 1 to the front and
  \<open>entropy_signal\<close> finds a first axis of length 2: the call raises \<open>AssertionError\<close> and no
  per-row entropy signal is computed. The same samples as two rows are processed as claimed.
\<close>

theorem per_row_parts_1d_fails:
  "process_per_row_parts example_input_1d example_pp = Inl AssertionError"
  by code_simp

section \<open>Properties of the saved fit results\<close>

lemma save_to_hdf_group:
  assumes "fi_params self = Some ps"
    and "save_to_hdf self parent name_opt = (Inr (), parent')"
    and "name = (case name_opt of None \<Rightarrow> ''FitInfo'' | Some n \<Rightarrow> n)"
  shows "\<exists>g. parent' name = Some g \<and> stored_params g = Some ps \<and>
             attrs g ''func_name'' = fi_func_name self \<and>
             attrs g ''func_code'' = fi_func_code self \<and>
             attrs g ''fit_report'' = fi_fit_report self \<and>
             attrs g ''description'' = Some ''FitInfo'' \<and>
             (\<forall>n. n \<noteq> name \<longrightarrow> parent' n = parent n)"
  using assms
  by (auto simp: save_to_hdf_def Let_def attrs_set_def params_to_HDF_def
      split: option.splits sum.splits)

text \<open>
  Claim C3, as amended. For a \<open>FitInfo\<close> with parameters for which \<open>save_to_hdf(parent_group, name)\<close>
  returns, \<open>from_hdf(parent_group, name)\<close> raises what making the fit function or filling the
  values raises, and otherwise returns a \<open>FitInfo\<close> whose \<open>params\<close>, \<open>func_name\<close>, \<open>func_code\<close> and
  \<open>fit_report\<close> are those of the saved instance and whose \<open>best_values\<close> and \<open>init_values\<close> are built
  again from the saved parameters: what the saved instance held as best values is not stored.
\<close>

theorem fitinfo_roundtrip:
  assumes "fi_params self = Some ps"
    and "save_to_hdf self parent name_opt = (Inr (), parent')"
  shows "from_hdf get_func parent' name_opt =
           bind_err (get_func (fi_func_name self) (fi_func_code self)) (\<lambda>f.
           bind_err (values_loop ps (empty_Values, empty_Values)) (\<lambda>(bv, iv).
             Inr \<lparr>fi_params = fi_params self,
                  fi_func_name = fi_func_name self,
                  fi_func_code = fi_func_code self,
                  fi_fit_report = fi_fit_report self,
                  fi_model = Some f,
                  fi_best_values = Some bv,
                  fi_init_values = Some iv,
                  fi_fit_result = None\<rparr>))"
proof -
  from save_to_hdf_group[OF assms refl] obtain g where g:
    "parent' (case name_opt of None \<Rightarrow> ''FitInfo'' | Some n \<Rightarrow> n) = Some g"
    "stored_params g = Some ps"
    "attrs g ''func_name'' = fi_func_name self"
    "attrs g ''func_code'' = fi_func_code self"
    "attrs g ''fit_report'' = fi_fit_report self"
    by blast
  show ?thesis
    by (simp add: from_hdf_def Let_def g init_from_hdf_def params_from_HDF_def bind_err_def assms(1))
qed

theorem fitinfo_roundtrip_witness:
  "from_hdf example_get_func (snd (save_to_hdf example_fit (\<lambda>n. None) None)) None =
     Inr (example_fit\<lparr>fi_best_values :=
            Some \<lparr>v_keys = Some [''mid''], v_attrs = (\<lambda>k. None)(''mid'' \<mapsto> Some (Num 5))\<rparr>,
          fi_init_values :=
            Some \<lparr>v_keys = Some [''mid''], v_attrs = (\<lambda>k. None)(''mid'' \<mapsto> Some (Num 0))\<rparr>\<rparr>)"
proof -
  have p: "fi_params example_fit =
      Some [(''mid'', \<lparr>fp_name = ''mid'', fp_value = Some (Num 5), fp_init_value = Some (Num 0)\<rparr>)]"
    by (simp add: example_fit_def)
  have s: "save_to_hdf example_fit (\<lambda>n. None) None = (Inr (), snd (save_to_hdf example_fit (\<lambda>n. None) None))"
    by (simp add: save_to_hdf_def Let_def example_fit_def attrs_set_def)
  show ?thesis
    unfolding fitinfo_roundtrip[OF p s]
    by (simp add: example_fit_def example_get_func_def bind_err_def Values_setattr_def empty_Values_def)
qed

text \<open>
  As stated, with the best values among what round-trips, the claim fails at \<open>example_fit\<close>: the
  file gives back the parameters, and the best values of the loaded instance are those of the
  parameters, not the ones the saved instance held.
\<close>

theorem fitinfo_roundtrip_counterexample:
  "fst (save_to_hdf example_fit (\<lambda>n. None) None) = Inr () \<and>
   (case from_hdf example_get_func (snd (save_to_hdf example_fit (\<lambda>n. None) None)) None of
      Inl e \<Rightarrow> False
    | Inr loaded \<Rightarrow>
        fi_params loaded = fi_params example_fit \<and>
        fi_best_values loaded \<noteq> fi_best_values example_fit)"
proof -
  have s: "fst (save_to_hdf example_fit (\<lambda>n. None) None) = Inr ()"
    by (simp add: save_to_hdf_def Let_def example_fit_def attrs_set_def)
  have l: "from_hdf example_get_func (snd (save_to_hdf example_fit (\<lambda>n. None) None)) None =
     Inr (example_fit\<lparr>fi_best_values :=
            Some \<lparr>v_keys = Some [''mid''], v_attrs = (\<lambda>k. None)(''mid'' \<mapsto> Some (Num 5))\<rparr>,
          fi_init_values :=
            Some \<lparr>v_keys = Some [''mid''], v_attrs = (\<lambda>k. None)(''mid'' \<mapsto> Some (Num 0))\<rparr>\<rparr>)"
    by (simp add: save_to_hdf_def from_hdf_def init_from_hdf_def params_from_HDF_def params_to_HDF_def
          Let_def example_fit_def attrs_set_def empty_group_def
          example_get_func_def bind_err_def Values_setattr_def empty_Values_def)
  have ne: "(\<lambda>k. None)(''mid'' \<mapsto> Some (Num 5)) \<noteq>
            (\<lambda>k. if k = ''mid'' then Some (Some (Num 1)) else None)"
  proof
    assume "(\<lambda>k. None)(''mid'' \<mapsto> Some (Num 5)) =
            (\<lambda>k. if k = ''mid'' then Some (Some (Num 1)) else None)"
    then have "((\<lambda>k. None)(''mid'' \<mapsto> Some (Num 5))) ''mid'' =
               (\<lambda>k. if k = ''mid'' then Some (Some (Num 1)) else None) ''mid''"
      by (rule fun_cong)
    then show False by simp
  qed
  show ?thesis
    unfolding l using s ne by (simp add: example_fit_def)
qed

end
